theory Spec2Isabelle
  imports Main "HOL-Library.Sublist"
begin

section \<open>Python strings and paths\<close>

text \<open>
  The build script works on ASCII text. A Python \<open>str\<close> is a \<^typ>\<open>string\<close>;
  \<open>x in y\<close> on two strings is \<^const>\<open>sublist\<close>, \<open>y.startswith(x)\<close> is
  \<^const>\<open>prefix\<close>.
\<close>

text \<open>\<open>sep.join(xs)\<close>\<close>

fun join :: "string \<Rightarrow> string list \<Rightarrow> string" where
  "join sep [] = []"
| "join sep [x] = x"
| "join sep (x # y # ys) = x @ sep @ join sep (y # ys)"

text \<open>
  The white space of \<open>str.split()\<close> and \<open>str.strip()\<close> among the ASCII characters:
  tab, line feed, vertical tab, form feed, carriage return, the four separators
  \<open>0x1c .. 0x1f\<close> and the blank.
\<close>

definition isspace :: "char \<Rightarrow> bool" where
  "isspace c = (let n = (of_char c :: nat) in (9 \<le> n \<and> n \<le> 13) \<or> (28 \<le> n \<and> n \<le> 32))"

text \<open>\<open>s.split()\<close>: the maximal runs of characters that are not white space.\<close>

fun split_ws_from :: "string \<Rightarrow> string \<Rightarrow> string list" where
  "split_ws_from cur [] = (if cur = [] then [] else [cur])"
| "split_ws_from cur (c # cs) =
     (if isspace c then (if cur = [] then split_ws_from [] cs else cur # split_ws_from [] cs)
      else split_ws_from (cur @ [c]) cs)"

definition split_ws :: "string \<Rightarrow> string list" where
  "split_ws s = split_ws_from [] s"

text \<open>\<open>s.split(d)\<close> for a separator of one character: empty fields are kept.\<close>

fun split_at_from :: "char \<Rightarrow> string \<Rightarrow> string \<Rightarrow> string list" where
  "split_at_from d cur [] = [cur]"
| "split_at_from d cur (c # cs) =
     (if c = d then cur # split_at_from d [] cs else split_at_from d (cur @ [c]) cs)"

definition split_at :: "char \<Rightarrow> string \<Rightarrow> string list" where
  "split_at d s = split_at_from d [] s"

text \<open>\<open>s.strip()\<close> and \<open>s.lstrip(chars)\<close>\<close>

definition strip :: "string \<Rightarrow> string" where
  "strip s = rev (dropWhile isspace (rev (dropWhile isspace s)))"

definition lstrip :: "string \<Rightarrow> string \<Rightarrow> string" where
  "lstrip chars s = dropWhile (\<lambda>c. c \<in> set chars) s"

text \<open>\<open>re.sub("^-l", "", x)\<close>: one leading \<open>-l\<close> is removed.\<close>

definition sub_leading_l :: "string \<Rightarrow> string" where
  "sub_leading_l x = (if prefix ''-l'' x then drop 2 x else x)"

text \<open>\<open>repr(s)\<close> (the conversion \<open>!r\<close>) of a string without quotes or escapes.\<close>

definition repr :: "string \<Rightarrow> string" where
  "repr s = [CHR 0x27] @ s @ [CHR 0x27]"

text \<open>\<open>os.path.join(a, b)\<close> of \<open>posixpath\<close>, for two components.\<close>

definition os_path_join :: "string \<Rightarrow> string \<Rightarrow> string" where
  "os_path_join a b =
     (if prefix ''/'' b then b
      else if a = [] \<or> last a = CHR ''/'' then a @ b
      else a @ ''/'' @ b)"

text \<open>\<open>os.path.basename(p)\<close> of \<open>posixpath\<close>: what follows the last slash.\<close>

definition os_path_basename :: "string \<Rightarrow> string" where
  "os_path_basename p = rev (takeWhile (\<lambda>c. c \<noteq> CHR ''/'') (rev p))"

text \<open>\<open>s.replace(".", os.sep)\<close>\<close>

definition dots_to_sep :: "string \<Rightarrow> string" where
  "dots_to_sep s = map (\<lambda>c. if c = CHR ''.'' then CHR ''/'' else c) s"


section \<open>Process state, exceptions and external tools\<close>

text \<open>
  \<open>os.environ\<close> and the table of \<open>sysconfig.get_config_vars()\<close> are maps from names to
  strings. The files the script tests and writes are a map from the path, as the script
  spells it, to the content.
\<close>

type_synonym env = "string \<rightharpoonup> string"
type_synonym files = "string \<rightharpoonup> string"

text \<open>The exceptions the script raises or lets through.\<close>

datatype error =
    ValueError string
  | TypeError
  | KeyError string
  | IndexError
  | NameError string
  | AttributeError
  | OSError
  | CalledProcessError
  | CompileError
  | LinkError string

datatype level = Info | Warning | Error

text \<open>
  A compiler executable of the \<open>distutils\<close> compiler object (\<open>compiler\<close>,
  \<open>compiler_so\<close>) is a list of words or one string.
\<close>

datatype command = CmdList "string list" | CmdStr string

text \<open>
  What the run does to the outside, in order: every subprocess with the directory it runs
  in, every file written, every call of the compiler object, every message of the logger.
\<close>

datatype event =
    EvConfigure string string
  | EvMake string string "string list"
  | EvMakePrintConfig string string
  | EvNm string
  | EvWrite string string
  | EvProbe "string list option"
  | EvSetExecutables "(string \<times> command) list"
  | EvBuildExtension string
  | EvLog level string

record state =
  environ :: env
  cwd :: string
  fs :: files
  compiler :: "command option"
  compiler_so :: "command option"
  trace :: "event list"

text \<open>
  The platform the script runs on: the \<open>sysconfig\<close> table, \<open>IS_DARWIN\<close>
  (\<open>platform.system() == 'Darwin'\<close>), \<open>sys.platform == 'darwin'\<close> and \<open>HAVE_CYTHON\<close>.
\<close>

record platform =
  sysconfig :: env
  IS_DARWIN :: bool
  sys_platform_darwin :: bool
  HAVE_CYTHON :: bool

text \<open>
  The attributes of a setuptools \<open>Extension\<close> that the script reads or changes.
\<close>

record extension =
  name :: string
  include_dirs :: "string list"
  define_macros :: "(string \<times> string option) list"
  undef_macros :: "string list"
  library_dirs :: "string list"
  libraries :: "string list"
  extra_objects :: "string list"
  extra_compile_args :: "string list"
  extra_link_args :: "string list"

text \<open>
  The programs the script starts, as functions of what they are given. A subprocess cannot
  change the environment or the working directory of the script, and the script does not
  read back, in the part modelled here, a file that a subprocess may have written.
  \<^item> \<open>configure_ok environ cwd option\<close>: \<open>./configure option\<close> started and returned 0;
  \<^item> \<open>make_fails environ cwd targets\<close>: the exception of \<open>subprocess.check_call\<close>, if any;
  \<^item> \<open>make_print_config environ cwd\<close>: the exception of \<open>make -s print-config\<close> or the
    lines of its output (\<open>stdout.splitlines()\<close>);
  \<^item> \<open>nm_lines objfile\<close>: the exception of \<open>nm -g -P objfile\<close> or the lines of its output;
  \<^item> \<open>probe_ok flags\<close>: the compiler object compiles \<open>pysam/conftest_cstd.c\<close> with these
    \<open>extra_preargs\<close> without \<open>CompileError\<close>;
  \<^item> \<open>super_build_extension state ext\<close>: the exception of the inherited
    \<open>build_extension\<close>, if any.
\<close>

record tools =
  configure_ok :: "env \<Rightarrow> string \<Rightarrow> string \<Rightarrow> bool"
  make_fails :: "env \<Rightarrow> string \<Rightarrow> string list \<Rightarrow> error option"
  make_print_config :: "env \<Rightarrow> string \<Rightarrow> error + string list"
  nm_lines :: "string \<Rightarrow> error + string list"
  probe_ok :: "string list option \<Rightarrow> bool"
  super_build_extension :: "state \<Rightarrow> extension \<Rightarrow> error option"

definition emit :: "event \<Rightarrow> state \<Rightarrow> state" where
  "emit e s = s\<lparr>trace := trace s @ [e]\<rparr>"

definition log :: "level \<Rightarrow> string \<Rightarrow> state \<Rightarrow> state" where
  "log l msg s = emit (EvLog l msg) s"


section \<open>Merging compiler settings: \<open>build_config_dict\<close>\<close>

text \<open>The local helpers \<open>env\<close>, \<open>sc\<close>, \<open>quote\<close>, \<open>optionise\<close> and \<open>kvtuples\<close>.\<close>

definition envl :: "env \<Rightarrow> string \<Rightarrow> string list" where
  "envl e var = (case e var of Some v \<Rightarrow> [v] | None \<Rightarrow> [])"

definition sc :: "platform \<Rightarrow> string \<Rightarrow> string list" where
  "sc p var = (case sysconfig p var of Some v \<Rightarrow> [v] | None \<Rightarrow> [])"

definition quote :: "string \<Rightarrow> string" where
  "quote s = (if CHR '' '' \<in> set s then [CHR 0x27] @ s @ [CHR 0x27] else s)"

definition optionise :: "string \<Rightarrow> string list \<Rightarrow> string list" where
  "optionise option valuelist = map (\<lambda>v. quote (option @ v)) valuelist"

definition appendoptvalue :: "string \<times> string option \<Rightarrow> string" where
  "appendoptvalue t = (case snd t of None \<Rightarrow> fst t | Some v \<Rightarrow> fst t @ ''='' @ v)"

definition kvtuples :: "(string \<times> string option) list \<Rightarrow> string list" where
  "kvtuples pairlist = map appendoptvalue pairlist"

text \<open>The pieces that are joined with blanks into each variable, in the order of the source.\<close>

definition cppflags_parts :: "env \<Rightarrow> extension \<Rightarrow> string list" where
  "cppflags_parts e ext =
     envl e ''CPPFLAGS'' @ optionise ''-I'' (include_dirs ext) @
     optionise ''-D'' (kvtuples (define_macros ext)) @
     optionise ''-U'' (undef_macros ext)"

definition cflags_parts :: "platform \<Rightarrow> env \<Rightarrow> extension \<Rightarrow> string list" where
  "cflags_parts p e ext =
     sc p ''CFLAGS'' @ envl e ''CFLAGS'' @ sc p ''CCSHARED'' @ extra_compile_args ext"

definition ldflags_parts :: "platform \<Rightarrow> env \<Rightarrow> extension \<Rightarrow> string list" where
  "ldflags_parts p e ext =
     sc p ''LDFLAGS'' @ envl e ''LDFLAGS'' @ envl e ''CFLAGS'' @
     optionise ''-L'' (library_dirs ext) @ extra_link_args ext"

text \<open>
  The dictionary that is returned, in the order of its keys. The list
  \<open>env('CC') + sc('CC') + ['gcc']\<close> is never empty, so its element 0 exists.
\<close>

definition build_config_dict :: "platform \<Rightarrow> env \<Rightarrow> extension \<Rightarrow> (string \<times> string) list" where
  "build_config_dict p e ext =
     [(''CC'', hd (envl e ''CC'' @ sc p ''CC'' @ [''gcc''])),
      (''CPPFLAGS'', join '' '' (cppflags_parts e ext)),
      (''CFLAGS'', join '' '' (cflags_parts p e ext)),
      (''LDFLAGS'', join '' '' (ldflags_parts p e ext)),
      (''LIBS'', join '' '' (optionise ''-l'' (libraries ext)))]"




section \<open>Scoped changes of the working directory and of the environment\<close>

text \<open>
  \<open>os.chdir(path)\<close>: a relative path is taken from the current directory. The value of
  \<open>os.getcwd()\<close> is the field \<open>cwd\<close>. The call is taken to succeed.
\<close>

definition chdir :: "string \<Rightarrow> state \<Rightarrow> state" where
  "chdir path s = s\<lparr>cwd := os_path_join (cwd s) path\<rparr>"

text \<open>
  \<open>with changedir(path): body\<close>. The body returns its result, which is \<open>Inl\<close> of an
  exception when it raises; the \<open>finally\<close> clause runs in both cases.
\<close>

definition changedir :: "string \<Rightarrow> (state \<Rightarrow> 'a \<times> state) \<Rightarrow> state \<Rightarrow> 'a \<times> state" where
  "changedir path body s =
     (let save_dir = cwd s;
          (r, s') = body (chdir path s)
      in (r, chdir save_dir s'))"

text \<open>
  One round of the loop of \<open>set_compiler_envvars\<close> over \<open>CC\<close>, \<open>CFLAGS\<close>, \<open>LDFLAGS\<close>,
  on the environment and \<open>tmp_vars\<close>. The \<open>print\<close> lines are not recorded.
\<close>

definition with_ccshared :: "platform \<Rightarrow> string \<Rightarrow> string \<Rightarrow> string" where
  "with_ccshared p var v =
     (case sysconfig p ''CCSHARED'' of
        Some ccshared \<Rightarrow> (if var = ''CFLAGS'' then v @ '' '' @ ccshared else v)
      | None \<Rightarrow> v)"

definition set_compiler_envvar :: "platform \<Rightarrow> env \<times> string list \<Rightarrow> string \<Rightarrow> env \<times> string list" where
  "set_compiler_envvar p acc var =
     (let (e, tmp_vars) = acc in
      case e var of
        Some cur \<Rightarrow> (e(var \<mapsto> with_ccshared p var cur), tmp_vars)
      | None \<Rightarrow>
          (case sysconfig p var of
             Some v \<Rightarrow> (e(var \<mapsto> with_ccshared p var v), tmp_vars @ [var])
           | None \<Rightarrow> (e, tmp_vars)))"

definition enter_compiler_envvars :: "platform \<Rightarrow> env \<Rightarrow> env \<times> string list" where
  "enter_compiler_envvars p e = foldl (set_compiler_envvar p) (e, []) [''CC'', ''CFLAGS'', ''LDFLAGS'']"

definition exit_compiler_envvars :: "string list \<Rightarrow> env \<Rightarrow> env" where
  "exit_compiler_envvars tmp_vars e = foldl (\<lambda>e' var. e'(var := None)) e tmp_vars"

text \<open>\<open>with set_compiler_envvars(): body\<close>\<close>

definition set_compiler_envvars :: "platform \<Rightarrow> (state \<Rightarrow> 'a \<times> state) \<Rightarrow> state \<Rightarrow> 'a \<times> state" where
  "set_compiler_envvars p body s =
     (let (e1, tmp_vars) = enter_compiler_envvars p (environ s);
          (r, s') = body (s\<lparr>environ := e1\<rparr>)
      in (r, s'\<lparr>environ := exit_compiler_envvars tmp_vars (environ s')\<rparr>))"


section \<open>Configuring the vendored library\<close>

text \<open>\<open>run_configure\<close>: \<open>False\<close> when the script returns non-zero or cannot be started.\<close>

definition run_configure :: "tools \<Rightarrow> string \<Rightarrow> state \<Rightarrow> bool \<times> state" where
  "run_configure t option s =
     (configure_ok t (environ s) (cwd s) option, emit (EvConfigure (cwd s) option) s)"

text \<open>The loop \<open>for option in options\<close> of \<open>configure_library\<close>.\<close>

fun try_options :: "tools \<Rightarrow> string list \<Rightarrow> state \<Rightarrow> string option \<times> state" where
  "try_options t [] s = (None, s)"
| "try_options t (option # options) s =
     (let (ok, s') = run_configure t option s
      in if ok then (Some option, s') else try_options t options s')"

text \<open>The body of the \<open>with\<close> statement of \<open>configure_library\<close>.\<close>

definition configure_attempts :: "tools \<Rightarrow> string option \<Rightarrow> string list \<Rightarrow> state \<Rightarrow> string option \<times> state" where
  "configure_attempts t env_options options s =
     (case env_options of
        Some eo \<Rightarrow>
          (let (ok, s') = run_configure t eo s
           in if ok then (Some eo, s') else try_options t options s')
      | None \<Rightarrow> try_options t options s)"

definition configure_library ::
  "tools \<Rightarrow> platform \<Rightarrow> string \<Rightarrow> string option \<Rightarrow> string list \<Rightarrow> state \<Rightarrow> (error + string option) \<times> state" where
  "configure_library t p library_dir env_options options s =
     (let configure_script = os_path_join library_dir ''configure'';
          on_rtd = (environ s ''READTHEDOCS'' = Some ''True'');
          env_options' = (if on_rtd then Some ''--disable-bz2'' else env_options)
      in if fs s configure_script = None
         then (Inl (ValueError (''configure script '' @ repr configure_script @ '' does not exist'')), s)
         else (let (r, s') = changedir library_dir
                               (set_compiler_envvars p (configure_attempts t env_options' options)) s
               in (Inr r, s')))"


section \<open>The resolver: the top level of the script up to the choice of the objects\<close>

text \<open>\<open>with open(filename, "w") as outf: outf.write(content)\<close>, taken to succeed.\<close>

definition write_file :: "string \<Rightarrow> string \<Rightarrow> state \<Rightarrow> state" where
  "write_file filename content s = emit (EvWrite filename content) (s\<lparr>fs := (fs s)(filename \<mapsto> content)\<rparr>)"

text \<open>\<open>os.environ.get("MAKE", "make")\<close>\<close>

definition make_program :: "state \<Rightarrow> string" where
  "make_program s = (case environ s ''MAKE'' of Some m \<Rightarrow> m | None \<Rightarrow> ''make'')"

text \<open>\<open>run_make(targets)\<close>: \<open>check_call\<close> raises when the program fails.\<close>

definition run_make :: "tools \<Rightarrow> string list \<Rightarrow> state \<Rightarrow> error option \<times> state" where
  "run_make t targets s =
     (make_fails t (environ s) (cwd s) targets, emit (EvMake (make_program s) (cwd s) targets) s)"

text \<open>One line of the output of \<open>make -s print-config\<close>, and \<open>run_make_print_config\<close>.\<close>

definition parse_config_line :: "env \<Rightarrow> string \<Rightarrow> env" where
  "parse_config_line m line =
     (if CHR ''='' \<in> set line
      then (case split_at CHR ''='' line of
              [a, b] \<Rightarrow> m(strip a \<mapsto> strip b)
            | _ \<Rightarrow> m)
      else m)"

definition run_make_print_config :: "tools \<Rightarrow> state \<Rightarrow> (error + env) \<times> state" where
  "run_make_print_config t s =
     (let s' = emit (EvMakePrintConfig (make_program s) (cwd s)) s
      in case make_print_config t (environ s) (cwd s) of
           Inl e \<Rightarrow> (Inl e, s')
         | Inr lines \<Rightarrow> (Inr (foldl parse_config_line Map.empty lines), s'))"

text \<open>The two lines written into an empty \<open>config.h\<close>.\<close>

definition empty_config_h :: string where
  "empty_config_h =
     ''/* empty config.h created by pysam */'' @ [CHR 0x0A] @
     ''/* conservative compilation options */'' @ [CHR 0x0A]"

text \<open>
  The block \<open>if HTSLIB_MODE in ['shared', 'separate']\<close>: what it leaves in
  \<open>htslib_configure_options\<close>, \<open>htslib_make_options\<close> and \<open>external_htslib_libraries\<close>.
  The lists of packages and of config headers and the \<open>print\<close> lines are left out.
\<close>

record builtin =
  htslib_configure_options :: "string option"
  htslib_make_options :: env
  builtin_libraries :: "string list"

definition libs_of_make_options :: "env \<Rightarrow> string list" where
  "libs_of_make_options mk =
     [''z''] @ (case mk ''LIBS'' of
                 Some l \<Rightarrow> map sub_leading_l (filter (\<lambda>x. strip x \<noteq> []) (split_at CHR '' '' l))
               | None \<Rightarrow> [])"

definition configure_builtin :: "tools \<Rightarrow> platform \<Rightarrow> string option \<Rightarrow> state \<Rightarrow> (error + builtin) \<times> state" where
  "configure_builtin t p options s =
     (case configure_library t p ''htslib'' options [''--enable-libcurl'', ''--disable-libcurl''] s of
        (Inl e, s1) \<Rightarrow> (Inl e, s1)
      | (Inr opt, s1) \<Rightarrow>
          (let s2 = (if opt = None then write_file ''htslib/config.h'' empty_config_h s1 else s1)
           in case changedir ''htslib'' (run_make_print_config t) s2 of
                (Inl e, s3) \<Rightarrow> (Inl e, s3)
              | (Inr mk, s3) \<Rightarrow>
                  (Inr \<lparr>htslib_configure_options = opt, htslib_make_options = mk,
                        builtin_libraries = libs_of_make_options mk\<rparr>, s3)))"

text \<open>
  The three ways of linking. The chain \<open>if HTSLIB_LIBRARY_DIR: ... elif HTSLIB_MODE ==
  'separate': ... elif HTSLIB_MODE == 'shared': ... else: raise ValueError\<close> decides among
  them; a string is true when it is neither \<open>None\<close> nor empty.
\<close>

datatype LinkMode = Embedded_Shared | Embedded_Separate | External

definition truthy :: "string option \<Rightarrow> bool" where
  "truthy v = (case v of None \<Rightarrow> False | Some x \<Rightarrow> x \<noteq> [])"

definition select_link_mode :: "string option \<Rightarrow> string \<Rightarrow> error + LinkMode" where
  "select_link_mode library_dir mode =
     (if truthy library_dir then Inr External
      else if mode = ''separate'' then Inr Embedded_Separate
      else if mode = ''shared'' then Inr Embedded_Shared
      else Inl (ValueError (''unknown HTSLIB value '' @ repr mode)))"

text \<open>The variables the chain sets. \<open>HTSLIB_INCLUDE_DIR\<close> may be \<open>None\<close> in the list.\<close>

record resolved =
  HTSLIB_MODE :: string
  link_mode :: LinkMode
  configured :: "builtin option"
  htslib_objects :: "string list"
  separate_htslib_objects :: "string list"
  htslib_library_dirs :: "string list"
  htslib_include_dirs :: "string option list"
  external_htslib_libraries :: "string list"

definition getenv_default :: "state \<Rightarrow> string \<Rightarrow> string \<Rightarrow> string" where
  "getenv_default s var d = (case environ s var of Some v \<Rightarrow> v | None \<Rightarrow> d)"

definition source_pattern_htslib :: "platform \<Rightarrow> string" where
  "source_pattern_htslib p = (if HAVE_CYTHON p then ''pysam/libchtslib.pyx'' else ''pysam/libchtslib.c'')"

text \<open>
  The chain itself, after the block above has run or has been skipped (\<open>b = None\<close>). In
  the two embedded branches the block has run, since \<open>HTSLIB_MODE\<close> is \<open>shared\<close> or
  \<open>separate\<close> there; reading a variable it would have set raises \<open>NameError\<close> otherwise.
\<close>

definition choose_objects :: "string \<Rightarrow> string option \<Rightarrow> string option \<Rightarrow> builtin option \<Rightarrow> error + resolved" where
  "choose_objects mode library_dir include_dir b =
     (case select_link_mode library_dir mode of
        Inl e \<Rightarrow> Inl e
      | Inr External \<Rightarrow>
          (case library_dir of
             None \<Rightarrow> Inl (NameError ''HTSLIB_LIBRARY_DIR'')
           | Some d \<Rightarrow>
               Inr \<lparr>HTSLIB_MODE = mode, link_mode = External, configured = b,
                    htslib_objects = [], separate_htslib_objects = [],
                    htslib_library_dirs = [d], htslib_include_dirs = [include_dir],
                    external_htslib_libraries = [''z'', ''hts'']\<rparr>)
      | Inr Embedded_Separate \<Rightarrow>
          (case b of
             None \<Rightarrow> Inl (NameError ''external_htslib_libraries'')
           | Some bi \<Rightarrow>
               Inr \<lparr>HTSLIB_MODE = mode, link_mode = Embedded_Separate, configured = b,
                    htslib_objects = [''htslib/libhts.a''],
                    separate_htslib_objects = [''htslib/libhts.a''],
                    htslib_library_dirs = [], htslib_include_dirs = [Some ''htslib''],
                    external_htslib_libraries = builtin_libraries bi\<rparr>)
      | Inr Embedded_Shared \<Rightarrow>
          (case b of
             None \<Rightarrow> Inl (NameError ''htslib_make_options'')
           | Some bi \<Rightarrow>
               (case htslib_make_options bi ''LIBHTS_OBJS'' of
                  None \<Rightarrow> Inl (KeyError ''LIBHTS_OBJS'')
                | Some objs \<Rightarrow>
                    Inr \<lparr>HTSLIB_MODE = mode, link_mode = Embedded_Shared, configured = b,
                         htslib_objects = map (os_path_join ''htslib'') (split_at CHR '' '' objs),
                         separate_htslib_objects = [],
                         htslib_library_dirs = [''.''], htslib_include_dirs = [Some ''htslib''],
                         external_htslib_libraries = builtin_libraries bi\<rparr>)))"

text \<open>
  Lines 403 to 508 of the script: the environment is read, the Cython source or its C file
  must exist, the vendored library is configured when \<open>HTSLIB_MODE\<close> is \<open>shared\<close> or
  \<open>separate\<close>, and the chain chooses.
\<close>

definition resolve :: "tools \<Rightarrow> platform \<Rightarrow> state \<Rightarrow> (error + resolved) \<times> state" where
  "resolve t p s =
     (let mode = getenv_default s ''HTSLIB_MODE'' ''shared'';
          library_dir = environ s ''HTSLIB_LIBRARY_DIR'';
          include_dir = environ s ''HTSLIB_INCLUDE_DIR'';
          options = environ s ''HTSLIB_CONFIGURE_OPTIONS'';
          fn = source_pattern_htslib p
      in if fs s fn = None
         then (Inl (ValueError (''no Cython installed, but cannot find '' @ fn @ ''. '' @
                ''Make sure that Cython is installed when building from the repository'')), s)
         else if mode \<in> set [''shared'', ''separate'']
         then (case configure_builtin t p options s of
                 (Inl e, s') \<Rightarrow> (Inl e, s')
               | (Inr bi, s') \<Rightarrow> (choose_objects mode library_dir include_dir (Some bi), s'))
         else (choose_objects mode library_dir include_dir None, s))"

text \<open>
  The declarations of the list \<open>modules\<close>: of each dictionary the keys \<open>name\<close>,
  \<open>prebuild_func\<close> and \<open>extra_objects\<close>. The sources, the libraries and the common
  options are not needed below.
\<close>

datatype hook = Prebuild_libchtslib | Prebuild_libcsamtools

record module_decl =
  mod_name :: string
  mod_prebuild_func :: "hook option"
  mod_extra_objects :: "string list"

definition consumer_names :: "string list" where
  "consumer_names =
     [''pysam.libcbcftools'', ''pysam.libcutils'', ''pysam.libcalignmentfile'',
      ''pysam.libcsamfile'', ''pysam.libcalignedsegment'', ''pysam.libctabix'',
      ''pysam.libcfaidx'', ''pysam.libcbcf'', ''pysam.libcbgzf'',
      ''pysam.libctabixproxies'', ''pysam.libcvcf'']"

definition modules :: "resolved \<Rightarrow> module_decl list" where
  "modules r =
     [\<lparr>mod_name = ''pysam.libchtslib'', mod_prebuild_func = Some Prebuild_libchtslib,
       mod_extra_objects = htslib_objects r\<rparr>,
      \<lparr>mod_name = ''pysam.libcsamtools'', mod_prebuild_func = Some Prebuild_libcsamtools,
       mod_extra_objects = separate_htslib_objects r\<rparr>] @
     map (\<lambda>n. \<lparr>mod_name = n, mod_prebuild_func = None,
                mod_extra_objects = separate_htslib_objects r\<rparr>) consumer_names"

text \<open>
  The search directories of \<open>common_options\<close>. \<open>os.path.abspath\<close> is a parameter; it
  raises \<open>TypeError\<close> on \<open>None\<close>, and the list comprehension stops there.
\<close>

fun abspath_all :: "(string \<Rightarrow> string) \<Rightarrow> string option list \<Rightarrow> error + string list" where
  "abspath_all abspath [] = Inr []"
| "abspath_all abspath (None # xs) = Inl TypeError"
| "abspath_all abspath (Some x # xs) =
     (case abspath_all abspath xs of Inl e \<Rightarrow> Inl e | Inr ys \<Rightarrow> Inr (abspath x # ys))"

definition common_dirs :: "(string \<Rightarrow> string) \<Rightarrow> string list \<Rightarrow> resolved \<Rightarrow> error + string list \<times> string list" where
  "common_dirs abspath include_os r =
     (case abspath_all abspath (map Some ([''pysam''] @ htslib_library_dirs r)) of
        Inl e \<Rightarrow> Inl e
      | Inr ldirs \<Rightarrow>
          (case abspath_all abspath
                  ([Some ''pysam''] @ htslib_include_dirs r @
                   map Some ([''samtools'', ''samtools/lz4'', ''bcftools'', ''.''] @ include_os)) of
             Inl e \<Rightarrow> Inl e
           | Inr idirs \<Rightarrow> Inr (ldirs, idirs)))"


section \<open>Symbol tables and the check for conflicts\<close>

text \<open>
  One line of \<open>nm -g -P\<close>: \<open>(sym, symtype) = line.split()[:2]\<close> raises \<open>ValueError\<close> on a
  line of fewer than two fields. The result is the symbol to add, if any.
\<close>

definition nm_entry :: "bool \<Rightarrow> string \<Rightarrow> error + string option" where
  "nm_entry darwin line =
     (case split_ws line of
        symb # symtype # rest \<Rightarrow>
          (if \<not> sublist symtype ''UFNWw'' then
             (if darwin then Inr (Some (if prefix ''_'' symb then drop 1 symb else symb))
              else (case symb of
                      [] \<Rightarrow> Inl IndexError
                    | c # cs \<Rightarrow> if c \<notin> set ''_$.@'' then Inr (Some symb) else Inr None))
           else Inr None)
      | _ \<Rightarrow> Inl (ValueError ''not enough values to unpack''))"

text \<open>
  A Python set of strings is a list without repetitions, in the order of insertion. Python
  does not fix the order in which a set is iterated; no statement below depends on it.
\<close>

definition set_add :: "string \<Rightarrow> string list \<Rightarrow> string list" where
  "set_add x xs = (if x \<in> set xs then xs else xs @ [x])"

fun nm_symbols :: "bool \<Rightarrow> string list \<Rightarrow> string list \<Rightarrow> error + string list" where
  "nm_symbols darwin symbols [] = Inr symbols"
| "nm_symbols darwin symbols (line # lines) =
     (case nm_entry darwin line of
        Inl e \<Rightarrow> Inl e
      | Inr None \<Rightarrow> nm_symbols darwin symbols lines
      | Inr (Some symb) \<Rightarrow> nm_symbols darwin (set_add symb symbols) lines)"

definition symbols_of_lines :: "bool \<Rightarrow> string list \<Rightarrow> error + string list" where
  "symbols_of_lines darwin lines =
     (case nm_symbols darwin [] lines of
        Inl e \<Rightarrow> Inl e
      | Inr symbols \<Rightarrow> Inr (removeAll ''__pyx_CommonTypesMetaclass_get_module'' symbols))"

definition run_nm_defined_symbols :: "tools \<Rightarrow> platform \<Rightarrow> string \<Rightarrow> state \<Rightarrow> (error + string list) \<times> state" where
  "run_nm_defined_symbols t p objfile s =
     (let s' = emit (EvNm objfile) s
      in case nm_lines t objfile of
           Inl e \<Rightarrow> (Inl e, s')
         | Inr lines \<Rightarrow> (symbols_of_lines (IS_DARWIN p) lines, s'))"

text \<open>
  \<open>symbols.setdefault(sym, []).append(obj)\<close> on a dictionary kept as the list of its
  items in the order of insertion.
\<close>

fun setdefault_append :: "string \<Rightarrow> string \<Rightarrow> (string \<times> string list) list \<Rightarrow> (string \<times> string list) list" where
  "setdefault_append symb obj [] = [(symb, [obj])]"
| "setdefault_append symb obj ((k, v) # kvs) =
     (if k = symb then (k, v @ [obj]) # kvs else (k, v) # setdefault_append symb obj kvs)"

text \<open>The options of the \<open>build_ext\<close> command and the methods inherited from it.\<close>

record build_ext =
  inplace :: bool
  force :: bool
  build_lib :: string
  get_ext_fullpath :: "string \<Rightarrow> string"

text \<open>The first loop of \<open>check_ext_symbol_conflicts\<close>, over the names of the extensions.\<close>

fun collect_symbols ::
  "tools \<Rightarrow> platform \<Rightarrow> build_ext \<Rightarrow> (string \<times> string list) list \<Rightarrow> string list \<Rightarrow> state
   \<Rightarrow> (error + (string \<times> string list) list) \<times> state" where
  "collect_symbols t p b symbols [] s = (Inr symbols, s)"
| "collect_symbols t p b symbols (n # ns) s =
     (case run_nm_defined_symbols t p (get_ext_fullpath b n) s of
        (Inl e, s') \<Rightarrow> (Inl e, s')
      | (Inr syms, s') \<Rightarrow>
          collect_symbols t p b
            (foldl (\<lambda>d symb. setdefault_append symb (lstrip ''pysam.'' n) d) symbols syms) ns s')"

text \<open>The second loop: one error message for each symbol with more than one owner.\<close>

definition conflict_message :: "string \<times> string list \<Rightarrow> string" where
  "conflict_message item = ''conflicting symbol ('' @ join '' '' (snd item) @ ''): '' @ fst item"

fun report_conflicts :: "(string \<times> string list) list \<Rightarrow> nat \<Rightarrow> state \<Rightarrow> nat \<times> state" where
  "report_conflicts [] errors s = (errors, s)"
| "report_conflicts (item # items) errors s =
     (if length (snd item) > 1
      then report_conflicts items (errors + 1) (log Error (conflict_message item) s)
      else report_conflicts items errors s)"

definition check_ext_symbol_conflicts ::
  "tools \<Rightarrow> platform \<Rightarrow> build_ext \<Rightarrow> string list \<Rightarrow> state \<Rightarrow> error option \<times> state" where
  "check_ext_symbol_conflicts t p b ext_names s =
     (case collect_symbols t p b [] ext_names s of
        (Inl e, s') \<Rightarrow> (Some e, s')
      | (Inr symbols, s') \<Rightarrow>
          (let (errors, s'') = report_conflicts symbols 0 s'
           in (if errors > 0 then Some (LinkError ''symbols defined in multiple extensions'')
               else None, s'')))"


section \<open>The hooks run before a module is built\<close>

definition format_macro_option :: "string \<times> string option \<Rightarrow> string" where
  "format_macro_option pair =
     (case snd pair of Some v \<Rightarrow> ''-D'' @ fst pair @ ''='' @ v | None \<Rightarrow> ''-D'' @ fst pair)"

definition define_line :: "string \<Rightarrow> string \<times> string \<Rightarrow> string" where
  "define_line pfx item =
     ''#define '' @ pfx @ ''_'' @ fst item @ '' '' @ [CHR 0x22] @ snd item @ [CHR 0x22] @ [CHR 0x0A]"

definition write_configvars_header :: "platform \<Rightarrow> string \<Rightarrow> extension \<Rightarrow> string \<Rightarrow> state \<Rightarrow> state" where
  "write_configvars_header p filename ext pfx s =
     (let config = build_config_dict p (environ s) ext @
                   (if pfx \<noteq> ''HTS'' then [(''HTSDIR'', ''(unused)''), (''CURSES_LIB'', ''(unused)'')]
                    else []);
          s1 = log Info (''creating '' @ filename @ '' for '' @ [CHR 0x27] @ name ext @ [CHR 0x27] @ '' extension'') s
      in write_file filename (concat (map (define_line pfx) config)) s1)"

text \<open>The two targets handed to \<open>make\<close> by \<open>prebuild_libchtslib\<close>.\<close>

definition lib_static_targets :: "extension \<Rightarrow> string list" where
  "lib_static_targets ext =
     (let args = join '' '' (extra_compile_args ext);
          defines = join '' '' (map format_macro_option (define_macros ext))
      in [''ALL_CPPFLAGS=-I. '' @ args @ '' '' @ defines @ '' $(CPPFLAGS)'', ''lib-static''])"

definition prebuild_libchtslib ::
  "tools \<Rightarrow> platform \<Rightarrow> string \<Rightarrow> extension \<Rightarrow> bool \<Rightarrow> state \<Rightarrow> error option \<times> state" where
  "prebuild_libchtslib t p mode ext frc s =
     (if mode \<notin> set [''shared'', ''separate''] then (None, s)
      else (let s1 = write_configvars_header p ''htslib/config_vars.h'' ext ''HTS'' s
            in if frc \<or> fs s1 ''htslib/libhts.a'' = None
               then changedir ''htslib'' (run_make t (lib_static_targets ext))
                      (log Info (''building '' @ [CHR 0x27] @ ''libhts.a'' @ [CHR 0x27]) s1)
               else (None, log Warning (''skipping '' @ [CHR 0x27] @ ''libhts.a'' @ [CHR 0x27] @
                                        '' (already built)'') s1)))"

definition prebuild_libcsamtools :: "platform \<Rightarrow> extension \<Rightarrow> bool \<Rightarrow> state \<Rightarrow> error option \<times> state" where
  "prebuild_libcsamtools p ext frc s =
     (None, write_configvars_header p ''samtools/samtools_config_vars.h'' ext ''SAMTOOLS'' s)"


section \<open>The extension compiler: \<open>cy_build_ext\<close>\<close>

text \<open>
  A \<open>CyExtension\<close>: the extension and its two hooks. No module of the script passes
  \<open>init_func\<close>; it is a function on the extension here.
\<close>

record cy_extension =
  ext :: extension
  init_func :: "(extension \<Rightarrow> extension) option"
  prebuild_func :: "hook option"

text \<open>
  The name of the compiler in the messages: \<open>getattr(self.compiler, "compiler", "C
  compiler")\<close>, and its element 0 when it is a list.
\<close>

definition compiler_name :: "state \<Rightarrow> error + string" where
  "compiler_name s =
     (case compiler s of
        None \<Rightarrow> Inr ''C compiler''
      | Some (CmdStr c) \<Rightarrow> Inr c
      | Some (CmdList []) \<Rightarrow> Inl IndexError
      | Some (CmdList (c # cs)) \<Rightarrow> Inr c)"

definition c99_candidates :: "string list option list" where
  "c99_candidates = [None, Some [''-std=c99''], Some [''-std=gnu99'']]"

definition flags_text :: "string list option \<Rightarrow> string" where
  "flags_text flags =
     (case flags of None \<Rightarrow> ''none needed'' | Some [] \<Rightarrow> ''none needed'' | Some fl \<Rightarrow> join '' '' fl)"

text \<open>The loop of \<open>c99_compile_args\<close> and what follows it.\<close>

fun probe_loop :: "tools \<Rightarrow> string \<Rightarrow> string list option list \<Rightarrow> state \<Rightarrow> string list option \<times> state" where
  "probe_loop t cname [] s = (None, log Error (cname @ '' cannot compile C99 source code'') s)"
| "probe_loop t cname (flags # rest) s =
     (let s1 = emit (EvProbe flags) s
      in if probe_ok t flags
         then (flags, log Info (cname @ '' option to enable C99 features: '' @ flags_text flags) s1)
         else probe_loop t cname rest (log Info ''(ignoring errors from test probes)'' s1))"

definition c99_compile_args :: "tools \<Rightarrow> state \<Rightarrow> (error + string list option) \<times> state" where
  "c99_compile_args t s =
     (case compiler_name s of
        Inl e \<Rightarrow> (Inl e, s)
      | Inr cname \<Rightarrow>
          (let (flags, s') = probe_loop t cname c99_candidates
                               (log Info (''checking for '' @ cname @ '' option to enable C99 features...'') s)
           in (Inr flags, s')))"

text \<open>The new value of one executable, when \<open>if command:\<close> holds.\<close>

definition extended_command :: "string list \<Rightarrow> command option \<Rightarrow> command option" where
  "extended_command c99_flags cmd =
     (case cmd of
        None \<Rightarrow> None
      | Some (CmdList l) \<Rightarrow> if l = [] then None else Some (CmdList (l @ c99_flags))
      | Some (CmdStr c) \<Rightarrow> if c = [] then None else Some (CmdStr (c @ '' '' @ join '' '' c99_flags)))"

text \<open>
  \<open>self.compiler.set_executables(**executables)\<close>: the compiler object takes the values
  of the keys that are given.
\<close>

definition set_executables :: "string list \<Rightarrow> state \<Rightarrow> state" where
  "set_executables c99_flags s =
     (let c = extended_command c99_flags (compiler s);
          cso = extended_command c99_flags (compiler_so s);
          executables = (case c of Some v \<Rightarrow> [(''compiler'', v)] | None \<Rightarrow> []) @
                        (case cso of Some v \<Rightarrow> [(''compiler_so'', v)] | None \<Rightarrow> [])
      in emit (EvSetExecutables executables)
           (s\<lparr>compiler := (case c of Some v \<Rightarrow> Some v | None \<Rightarrow> compiler s),
              compiler_so := (case cso of Some v \<Rightarrow> Some v | None \<Rightarrow> compiler_so s)\<rparr>))"

text \<open>The link arguments that \<open>build_extension\<close> appends.\<close>

definition platform_link_args :: "platform \<Rightarrow> string \<Rightarrow> error + string list" where
  "platform_link_args p nm =
     (if sys_platform_darwin p then
        (case sysconfig p ''EXT_SUFFIX'' of
           None \<Rightarrow> Inl TypeError
         | Some sfx \<Rightarrow>
             (let relative_module_path = dots_to_sep nm @ sfx;
                  library_path = os_path_join ''@rpath'' (os_path_basename relative_module_path)
              in Inr [''-dynamiclib'', ''-rpath'', ''@loader_path'',
                      ''-Wl,-headerpad_max_install_names'',
                      ''-Wl,-install_name,'' @ library_path, ''-Wl,-x'']))
      else Inr [''-Wl,-rpath,$ORIGIN''])"

definition run_prebuild ::
  "tools \<Rightarrow> platform \<Rightarrow> string \<Rightarrow> hook \<Rightarrow> extension \<Rightarrow> bool \<Rightarrow> state \<Rightarrow> error option \<times> state" where
  "run_prebuild t p mode h x frc s =
     (case h of
        Prebuild_libchtslib \<Rightarrow> prebuild_libchtslib t p mode x frc s
      | Prebuild_libcsamtools \<Rightarrow> prebuild_libcsamtools p x frc s)"

text \<open>
  \<open>build_extension\<close>. The extensions of the script share one list \<open>library_dirs\<close>, so
  the directory appended here also reaches the modules built later; here each extension
  has its own list. The last step is the inherited \<open>build_extension\<close>.
\<close>

definition build_extension ::
  "tools \<Rightarrow> platform \<Rightarrow> build_ext \<Rightarrow> string \<Rightarrow> cy_extension \<Rightarrow> state \<Rightarrow> error option \<times> state" where
  "build_extension t p b mode cx s =
     (let x0 = (case init_func cx of Some f \<Rightarrow> f (ext cx) | None \<Rightarrow> ext cx);
          x1 = (if \<not> inplace b
                then x0\<lparr>library_dirs := library_dirs x0 @ [os_path_join (build_lib b) ''pysam'']\<rparr>
                else x0)
      in case platform_link_args p (name x1) of
           Inl e \<Rightarrow> (Some e, s)
         | Inr args \<Rightarrow>
             (let x2 = x1\<lparr>extra_link_args := extra_link_args x1 @ args\<rparr>;
                  (r, s1) = (case prebuild_func cx of
                               Some h \<Rightarrow> run_prebuild t p mode h x2 (force b) s
                             | None \<Rightarrow> (None, s))
              in case r of
                   Some e \<Rightarrow> (Some e, s1)
                 | None \<Rightarrow> (super_build_extension t s1 x2, emit (EvBuildExtension (name x2)) s1)))"

text \<open>
  The inherited \<open>build_extensions\<close> belongs to setuptools: it calls \<open>build_extension\<close>
  on each extension in the order of the list and lets the first exception through.
\<close>

fun super_build_extensions ::
  "tools \<Rightarrow> platform \<Rightarrow> build_ext \<Rightarrow> string \<Rightarrow> cy_extension list \<Rightarrow> state \<Rightarrow> error option \<times> state" where
  "super_build_extensions t p b mode [] s = (None, s)"
| "super_build_extensions t p b mode (cx # cxs) s =
     (case build_extension t p b mode cx s of
        (Some e, s') \<Rightarrow> (Some e, s')
      | (None, s') \<Rightarrow> super_build_extensions t p b mode cxs s')"

definition build_extensions ::
  "tools \<Rightarrow> platform \<Rightarrow> build_ext \<Rightarrow> string \<Rightarrow> cy_extension list \<Rightarrow> state \<Rightarrow> error option \<times> state" where
  "build_extensions t p b mode cxs s =
     (case c99_compile_args t s of
        (Inl e, s1) \<Rightarrow> (Some e, s1)
      | (Inr c99_flags, s1) \<Rightarrow>
          (let s2 = (case c99_flags of
                       None \<Rightarrow> s1
                     | Some [] \<Rightarrow> s1
                     | Some fl \<Rightarrow> set_executables fl s1)
           in super_build_extensions t p b mode cxs s2))"

text \<open>\<open>ldshared.replace('-bundle', '')\<close>: \<open>k\<close> characters are still to be dropped.\<close>

fun delete_sub :: "string \<Rightarrow> nat \<Rightarrow> string \<Rightarrow> string" where
  "delete_sub old k [] = []"
| "delete_sub old k (c # cs) =
     (if k > 0 then delete_sub old (k - 1) cs
      else if prefix old (c # cs) then delete_sub old (length old - 1) cs
      else c # delete_sub old 0 cs)"

definition set_ldshared :: "platform \<Rightarrow> state \<Rightarrow> error + state" where
  "set_ldshared p s =
     (if sys_platform_darwin p then
        (case (case environ s ''LDSHARED'' of Some v \<Rightarrow> Some v | None \<Rightarrow> sysconfig p ''LDSHARED'') of
           None \<Rightarrow> Inl AttributeError
         | Some ldshared \<Rightarrow>
             Inr (s\<lparr>environ := (environ s)(''LDSHARED'' \<mapsto> delete_sub ''-bundle'' 0 ldshared)\<rparr>))
      else Inr s)"

text \<open>
  \<open>run\<close>. The inherited \<open>run\<close> belongs to setuptools: it prepares the compiler object and
  calls \<open>build_extensions\<close>. An \<open>OSError\<close> or a \<open>CalledProcessError\<close> of the check
  becomes a warning (the text of the error is not kept in the message).
\<close>

definition run ::
  "tools \<Rightarrow> platform \<Rightarrow> build_ext \<Rightarrow> string \<Rightarrow> cy_extension list \<Rightarrow> state \<Rightarrow> error option \<times> state" where
  "run t p b mode cxs s =
     (case set_ldshared p s of
        Inl e \<Rightarrow> (Some e, s)
      | Inr s0 \<Rightarrow>
          (case build_extensions t p b mode cxs s0 of
             (Some e, s1) \<Rightarrow> (Some e, s1)
           | (None, s1) \<Rightarrow>
               (if mode \<noteq> ''separate''
                then (case check_ext_symbol_conflicts t p b (map (\<lambda>cx. name (ext cx)) cxs) s1 of
                        (Some OSError, s2) \<Rightarrow>
                          (None, log Warning ''skipping symbol collision check (invoking nm failed)'' s2)
                      | (Some CalledProcessError, s2) \<Rightarrow>
                          (None, log Warning ''skipping symbol collision check (invoking nm failed)'' s2)
                      | (r, s2) \<Rightarrow> (r, s2))
                else (None, s1))))"

section \<open>Notions used to state the properties\<close>

text \<open>
  The candidates that a loop of the form "try each in order, stop at the first that
  succeeds" gets to try: all up to and including the first success.
\<close>

fun attempted :: "('a \<Rightarrow> bool) \<Rightarrow> 'a list \<Rightarrow> 'a list" where
  "attempted ok [] = []"
| "attempted ok (x # xs) = x # (if ok x then [] else attempted ok xs)"

text \<open>The events that a step has added to the trace.\<close>

definition new_events :: "state \<Rightarrow> state \<Rightarrow> event list" where
  "new_events s s' = drop (length (trace s)) (trace s')"

text \<open>
  What \<open>configure_library\<close> tries before the fallback list: \<open>--disable-bz2\<close> on Read the
  Docs, the option of the caller otherwise, if there is one.
\<close>

definition first_choice :: "state \<Rightarrow> string option \<Rightarrow> string list" where
  "first_choice s env_options =
     (if environ s ''READTHEDOCS'' = Some ''True'' then [''--disable-bz2'']
      else (case env_options of Some eo \<Rightarrow> [eo] | None \<Rightarrow> []))"

text \<open>
  The outcome of \<open>./configure option\<close> in the library directory, under the environment
  that \<open>set_compiler_envvars\<close> has prepared.
\<close>

definition configure_succeeds :: "tools \<Rightarrow> platform \<Rightarrow> string \<Rightarrow> state \<Rightarrow> string \<Rightarrow> bool" where
  "configure_succeeds t p library_dir s option =
     configure_ok t (fst (enter_compiler_envvars p (environ s))) (os_path_join (cwd s) library_dir) option"


subsection \<open>A concrete build\<close>

definition ex_ext :: extension where
  "ex_ext = \<lparr>name = ''pysam.libchtslib'', include_dirs = [''/src/pysam'', ''/src/htslib''],
     define_macros = [(''BUILDING_WHEEL'', None)], undef_macros = [],
     library_dirs = [''/src/pysam''], libraries = [''z''], extra_objects = [],
     extra_compile_args = [''-Wno-unused''], extra_link_args = []\<rparr>"

definition ex_platform :: platform where
  "ex_platform = \<lparr>sysconfig = [''CC'' \<mapsto> ''cc'', ''CFLAGS'' \<mapsto> ''-O2'', ''CCSHARED'' \<mapsto> ''-fPIC''],
     IS_DARWIN = False, sys_platform_darwin = False, HAVE_CYTHON = True\<rparr>"

definition ex_state :: "env \<Rightarrow> state" where
  "ex_state e = \<lparr>environ = e, cwd = ''/src'',
     fs = [''pysam/libchtslib.pyx'' \<mapsto> '''', ''htslib/configure'' \<mapsto> ''''],
     compiler = Some (CmdList [''cc'']), compiler_so = Some (CmdList [''cc'', ''-fPIC'']),
     trace = []\<rparr>"

definition ex_tools :: "(string \<Rightarrow> bool) \<Rightarrow> tools" where
  "ex_tools ok = \<lparr>configure_ok = (\<lambda>e d option. ok option),
     make_fails = (\<lambda>e d targets. None),
     make_print_config = (\<lambda>e d. Inr [''LIBHTS_OBJS = kfunc.o cram/cram_io.o'', ''LIBS = -lz -lm'']),
     nm_lines = (\<lambda>objfile. Inr [''foo T 0000 0010'', ''malloc U'']),
     probe_ok = (\<lambda>flags. flags = Some [''-std=gnu99'']),
     super_build_extension = (\<lambda>s x. None)\<rparr>"

definition ex_external_env :: env where
  "ex_external_env = [''HTSLIB_LIBRARY_DIR'' \<mapsto> ''/opt/lib'', ''HTSLIB_INCLUDE_DIR'' \<mapsto> ''/opt/include'']"

definition ex_builtin :: builtin where
  "ex_builtin = \<lparr>htslib_configure_options = Some ''--enable-libcurl'',
     htslib_make_options = [''LIBHTS_OBJS'' \<mapsto> ''kfunc.o cram/cram_io.o'', ''LIBS'' \<mapsto> ''-lz -lm''],
     builtin_libraries = [''z'', ''z'', ''m'']\<rparr>"

definition ex_configured :: "env \<Rightarrow> state" where
  "ex_configured e = (ex_state e)\<lparr>trace :=
     [EvConfigure ''/src/htslib'' ''--enable-libcurl'', EvMakePrintConfig ''make'' ''/src/htslib'']\<rparr>"

definition ex_separate_env :: env where
  "ex_separate_env = [''HTSLIB_MODE'' \<mapsto> ''separate'']"

definition ex_built :: state where
  "ex_built = (ex_state Map.empty)\<lparr>fs := (fs (ex_state Map.empty))(''htslib/libhts.a'' \<mapsto> '''')\<rparr>"

text \<open>The test compiles among the events.\<close>

fun is_probe :: "event \<Rightarrow> bool" where
  "is_probe (EvProbe flags) = True"
| "is_probe e = False"


definition ex_cx :: cy_extension where
  "ex_cx = \<lparr>ext = ex_ext, init_func = None, prebuild_func = None\<rparr>"

definition ex_build_ext :: build_ext where
  "ex_build_ext = \<lparr>inplace = True, force = False, build_lib = ''build/lib'',
     get_ext_fullpath = (\<lambda>n. ''build/lib/'' @ dots_to_sep n @ ''.so'')\<rparr>"




text \<open>
  The symbol table of a built module, as \<open>run_nm_defined_symbols\<close> extracts it from the
  file of the module, and the modules of a list that own a symbol, by the names under
  which the check reports them.
\<close>

definition symbol_table :: "tools \<Rightarrow> platform \<Rightarrow> build_ext \<Rightarrow> string \<Rightarrow> error + string list" where
  "symbol_table t p b n =
     (case nm_lines t (get_ext_fullpath b n) of
        Inl e \<Rightarrow> Inl e
      | Inr lines \<Rightarrow> symbols_of_lines (IS_DARWIN p) lines)"

definition exports :: "tools \<Rightarrow> platform \<Rightarrow> build_ext \<Rightarrow> string \<Rightarrow> string \<Rightarrow> bool" where
  "exports t p b symb n =
     (case symbol_table t p b n of Inr syms \<Rightarrow> symb \<in> set syms | Inl e \<Rightarrow> False)"

definition owners :: "tools \<Rightarrow> platform \<Rightarrow> build_ext \<Rightarrow> string list \<Rightarrow> string \<Rightarrow> string list" where
  "owners t p b names symb = map (lstrip ''pysam.'') (filter (exports t p b symb) names)"

text \<open>The value of a key in a dictionary kept as a list of items, \<open>[]\<close> for a missing key.\<close>

definition dict_get :: "(string \<times> string list) list \<Rightarrow> string \<Rightarrow> string list" where
  "dict_get d k = (case map_of d k of Some v \<Rightarrow> v | None \<Rightarrow> [])"

definition ex_cx2 :: cy_extension where
  "ex_cx2 = \<lparr>ext = ex_ext\<lparr>name := ''pysam.libcutils''\<rparr>, init_func = None, prebuild_func = None\<rparr>"


section \<open>Joined strings\<close>








section \<open>The merged compiler configuration\<close>












section \<open>Configuring the vendored library\<close>

lemma try_options_eq:
  "try_options t opts s =
     (find (configure_ok t (environ s) (cwd s)) opts,
      s\<lparr>trace := trace s @ map (EvConfigure (cwd s)) (attempted (configure_ok t (environ s) (cwd s)) opts)\<rparr>)"
proof (induction opts arbitrary: s)
  case Nil
  then show ?case by simp
next
  case (Cons a opts)
  show ?case
    by (simp add: run_configure_def emit_def Cons)
qed

lemma configure_attempts_eq:
  "configure_attempts t eo opts s =
     (find (configure_ok t (environ s) (cwd s)) ((case eo of Some x \<Rightarrow> [x] | None \<Rightarrow> []) @ opts),
      s\<lparr>trace := trace s @ map (EvConfigure (cwd s))
           (attempted (configure_ok t (environ s) (cwd s)) ((case eo of Some x \<Rightarrow> [x] | None \<Rightarrow> []) @ opts))\<rparr>)"
  by (cases eo) (simp_all add: configure_attempts_def try_options_eq run_configure_def emit_def)

lemma configure_library_eq:
  assumes "fs s (os_path_join library_dir ''configure'') \<noteq> None"
  shows "configure_library t p library_dir env_options options s =
     (Inr (find (configure_succeeds t p library_dir s) (first_choice s env_options @ options)),
      s\<lparr>environ := exit_compiler_envvars (snd (enter_compiler_envvars p (environ s)))
                      (fst (enter_compiler_envvars p (environ s))),
        cwd := os_path_join (os_path_join (cwd s) library_dir) (cwd s),
        trace := trace s @ map (EvConfigure (os_path_join (cwd s) library_dir))
           (attempted (configure_succeeds t p library_dir s) (first_choice s env_options @ options))\<rparr>)"
proof -
  obtain e1 tmp where e: "enter_compiler_envvars p (environ s) = (e1, tmp)"
    by (cases "enter_compiler_envvars p (environ s)")
  have ok: "configure_succeeds t p library_dir s = configure_ok t e1 (os_path_join (cwd s) library_dir)"
    by (rule ext) (simp add: configure_succeeds_def e)
  have fc: "(case (if environ s ''READTHEDOCS'' = Some ''True'' then Some ''--disable-bz2'' else env_options)
              of Some x \<Rightarrow> [x] | None \<Rightarrow> []) = first_choice s env_options"
    by (simp add: first_choice_def)
  show ?thesis
    using assms
    by (simp add: configure_library_def changedir_def set_compiler_envvars_def chdir_def
        configure_attempts_eq e ok fc Let_def)
qed

lemma configure_library_missing_script:
  assumes "fs s (os_path_join library_dir ''configure'') = None"
  shows "\<exists>msg. configure_library t p library_dir env_options options s = (Inl (ValueError msg), s)"
  using assms by (simp add: configure_library_def Let_def)

lemma find_None_iff_all: "find P xs = None \<longleftrightarrow> (\<forall>x \<in> set xs. \<not> P x)"
  by (induction xs) auto

lemma changedir_print_config_frame:
  assumes "changedir d (run_make_print_config t) s = (r, s')"
  shows "fs s' = fs s \<and> environ s' = environ s
       \<and> trace s' = trace s @ [EvMakePrintConfig (make_program s) (os_path_join (cwd s) d)]"
  using assms
  by (auto simp: changedir_def run_make_print_config_def chdir_def emit_def make_program_def Let_def
      split: sum.splits)

lemma configure_builtin_state:
  assumes "fs s ''htslib/configure'' \<noteq> None"
    and "configure_builtin t p env_options s = (rb, sb)"
  shows "let ok = configure_succeeds t p ''htslib'' s;
             tries = first_choice s env_options @ [''--enable-libcurl'', ''--disable-libcurl'']
         in fs sb = (if find ok tries = None then (fs s)(''htslib/config.h'' \<mapsto> empty_config_h) else fs s)
          \<and> (\<exists>mp d. trace sb = trace s @ map (EvConfigure (os_path_join (cwd s) ''htslib'')) (attempted ok tries)
                 @ (if find ok tries = None then [EvWrite ''htslib/config.h'' empty_config_h] else [])
                 @ [EvMakePrintConfig mp d])"
proof -
  have sc: "fs s (os_path_join ''htslib'' ''configure'') \<noteq> None"
    using assms(1) by (simp add: os_path_join_def)
  note cl = configure_library_eq[OF sc, of t p env_options "[''--enable-libcurl'', ''--disable-libcurl'']"]
  obtain r3 s3 where cd: "changedir ''htslib'' (run_make_print_config t)
      (let s1 = snd (configure_library t p ''htslib'' env_options [''--enable-libcurl'', ''--disable-libcurl''] s)
       in if find (configure_succeeds t p ''htslib'' s)
               (first_choice s env_options @ [''--enable-libcurl'', ''--disable-libcurl'']) = None
          then write_file ''htslib/config.h'' empty_config_h s1 else s1) = (r3, s3)"
    by fastforce
  have sb: "sb = s3"
    using assms(2) cd unfolding configure_builtin_def cl
    by (auto simp: Let_def split: sum.splits if_splits)
  show ?thesis
    using changedir_print_config_frame[OF cd] unfolding sb cl
    by (auto simp: Let_def write_file_def emit_def)
qed

text \<open>
  C3, as the code has it. When the configure script of the library exists,
  \<open>configure_library\<close> tries first \<open>--disable-bz2\<close> on Read the Docs (whatever option the
  user supplied) and the user's option otherwise, if there is one, then the options of the
  fallback list in order; it stops at the first attempt that succeeds and returns that
  option. When every attempt fails it returns \<open>None\<close> and raises nothing, and the resolver
  then writes the two comment lines into \<open>htslib/config.h\<close>; when an attempt succeeds the
  resolver leaves that file alone.
\<close>

theorem configure_fallback_order:
  assumes "fs s (os_path_join library_dir ''configure'') \<noteq> None"
  shows "let ok = configure_succeeds t p library_dir s;
             tries = first_choice s env_options @ options;
             (r, s') = configure_library t p library_dir env_options options s;
             (rb, sb) = configure_builtin t p env_options s
         in r = Inr (find ok tries)
          \<and> new_events s s' = map (EvConfigure (os_path_join (cwd s) library_dir)) (attempted ok tries)
          \<and> ((\<forall>option \<in> set tries. \<not> ok option) \<longrightarrow> r = Inr None)
          \<and> (library_dir = ''htslib'' \<and> options = [''--enable-libcurl'', ''--disable-libcurl'']
               \<longrightarrow> fs sb = (if \<forall>option \<in> set tries. \<not> ok option
                             then (fs s)(''htslib/config.h'' \<mapsto> empty_config_h) else fs s))"
proof -
  obtain rb sb where b: "configure_builtin t p env_options s = (rb, sb)"
    by (cases "configure_builtin t p env_options s")
  have hdr: "library_dir = ''htslib'' \<Longrightarrow> options = [''--enable-libcurl'', ''--disable-libcurl''] \<Longrightarrow>
      fs sb = (if \<forall>option \<in> set (first_choice s env_options @ options).
                     \<not> configure_succeeds t p library_dir s option
               then (fs s)(''htslib/config.h'' \<mapsto> empty_config_h) else fs s)"
  proof -
    assume l: "library_dir = ''htslib''" and o: "options = [''--enable-libcurl'', ''--disable-libcurl'']"
    have "fs s ''htslib/configure'' \<noteq> None"
      using assms l by (simp add: os_path_join_def)
    from configure_builtin_state[OF this b] show ?thesis
      unfolding l o Let_def find_None_iff_all by blast
  qed
  show ?thesis
    using hdr
    by (simp add: configure_library_eq[OF assms] b new_events_def find_None_iff_all Let_def)
qed

theorem configure_fallback_order_witness:
  "fs (ex_state Map.empty) (os_path_join ''htslib'' ''configure'') \<noteq> None
   \<and> fst (configure_library (ex_tools (\<lambda>option. option = ''--disable-libcurl'')) ex_platform ''htslib''
            (Some ''--enable-s3'') [''--enable-libcurl'', ''--disable-libcurl''] (ex_state Map.empty))
       = Inr (Some ''--disable-libcurl'')
   \<and> new_events (ex_state Map.empty)
        (snd (configure_library (ex_tools (\<lambda>option. option = ''--disable-libcurl'')) ex_platform ''htslib''
            (Some ''--enable-s3'') [''--enable-libcurl'', ''--disable-libcurl''] (ex_state Map.empty)))
       = [EvConfigure ''/src/htslib'' ''--enable-s3'', EvConfigure ''/src/htslib'' ''--enable-libcurl'',
          EvConfigure ''/src/htslib'' ''--disable-libcurl'']
   \<and> fst (configure_library (ex_tools (\<lambda>option. False)) ex_platform ''htslib''
            (Some ''--enable-s3'') [''--enable-libcurl'', ''--disable-libcurl''] (ex_state Map.empty))
       = Inr None
   \<and> fs (snd (configure_builtin (ex_tools (\<lambda>option. False)) ex_platform (Some ''--enable-s3'')
              (ex_state Map.empty))) ''htslib/config.h''
       = Some empty_config_h"
proof -
  have ex: "fs (ex_state Map.empty) (os_path_join ''htslib'' ''configure'') \<noteq> None"
    by (simp add: ex_state_def os_path_join_def)
  have fc: "first_choice (ex_state Map.empty) (Some ''--enable-s3'') = [''--enable-s3'']"
    by (simp add: first_choice_def ex_state_def)
  have ok1: "configure_succeeds (ex_tools (\<lambda>option. option = ''--disable-libcurl'')) ex_platform ''htslib''
               (ex_state Map.empty) = (\<lambda>option. option = ''--disable-libcurl'')"
    by (rule ext) (simp add: configure_succeeds_def ex_tools_def)
  have ok2: "configure_succeeds (ex_tools (\<lambda>option. False)) ex_platform ''htslib''
               (ex_state Map.empty) = (\<lambda>option. False)"
    by (rule ext) (simp add: configure_succeeds_def ex_tools_def)
  have cw: "os_path_join (cwd (ex_state Map.empty)) ''htslib'' = ''/src/htslib''"
    by (simp add: ex_state_def os_path_join_def)
  from configure_fallback_order[OF ex, of "ex_tools (\<lambda>option. option = ''--disable-libcurl'')" ex_platform
      "Some ''--enable-s3''" "[''--enable-libcurl'', ''--disable-libcurl'']"]
  have a: "fst (configure_library (ex_tools (\<lambda>option. option = ''--disable-libcurl'')) ex_platform ''htslib''
            (Some ''--enable-s3'') [''--enable-libcurl'', ''--disable-libcurl''] (ex_state Map.empty))
       = Inr (Some ''--disable-libcurl'')
     \<and> new_events (ex_state Map.empty)
        (snd (configure_library (ex_tools (\<lambda>option. option = ''--disable-libcurl'')) ex_platform ''htslib''
            (Some ''--enable-s3'') [''--enable-libcurl'', ''--disable-libcurl''] (ex_state Map.empty)))
       = [EvConfigure ''/src/htslib'' ''--enable-s3'', EvConfigure ''/src/htslib'' ''--enable-libcurl'',
          EvConfigure ''/src/htslib'' ''--disable-libcurl'']"
    by (simp add: fc ok1 cw Let_def split: prod.splits)
  from configure_fallback_order[OF ex, of "ex_tools (\<lambda>option. False)" ex_platform
      "Some ''--enable-s3''" "[''--enable-libcurl'', ''--disable-libcurl'']"]
  have b: "fst (configure_library (ex_tools (\<lambda>option. False)) ex_platform ''htslib''
            (Some ''--enable-s3'') [''--enable-libcurl'', ''--disable-libcurl''] (ex_state Map.empty))
       = Inr None
     \<and> fs (snd (configure_builtin (ex_tools (\<lambda>option. False)) ex_platform (Some ''--enable-s3'')
              (ex_state Map.empty))) ''htslib/config.h''
       = Some empty_config_h"
    by (simp add: fc ok2 cw Let_def split: prod.splits)
  from ex a b show ?thesis by blast
qed

theorem configure_user_option_first_counterexample:
  "configure_succeeds (ex_tools (\<lambda>option. option = ''--enable-s3'')) ex_platform ''htslib''
     (ex_state [''READTHEDOCS'' \<mapsto> ''True'']) ''--enable-s3''
   \<and> fst (configure_library (ex_tools (\<lambda>option. option = ''--enable-s3'')) ex_platform ''htslib''
            (Some ''--enable-s3'') [''--enable-libcurl'', ''--disable-libcurl'']
            (ex_state [''READTHEDOCS'' \<mapsto> ''True'']))
       = Inr None
   \<and> new_events (ex_state [''READTHEDOCS'' \<mapsto> ''True''])
        (snd (configure_library (ex_tools (\<lambda>option. option = ''--enable-s3'')) ex_platform ''htslib''
            (Some ''--enable-s3'') [''--enable-libcurl'', ''--disable-libcurl'']
            (ex_state [''READTHEDOCS'' \<mapsto> ''True''])))
       = [EvConfigure ''/src/htslib'' ''--disable-bz2'', EvConfigure ''/src/htslib'' ''--enable-libcurl'',
          EvConfigure ''/src/htslib'' ''--disable-libcurl'']"
proof -
  have ex: "fs (ex_state [''READTHEDOCS'' \<mapsto> ''True'']) (os_path_join ''htslib'' ''configure'') \<noteq> None"
    by (simp add: ex_state_def os_path_join_def)
  have fc: "first_choice (ex_state [''READTHEDOCS'' \<mapsto> ''True'']) (Some ''--enable-s3'') = [''--disable-bz2'']"
    by (simp add: first_choice_def ex_state_def)
  have ok: "configure_succeeds (ex_tools (\<lambda>option. option = ''--enable-s3'')) ex_platform ''htslib''
               (ex_state [''READTHEDOCS'' \<mapsto> ''True'']) = (\<lambda>option. option = ''--enable-s3'')"
    by (rule ext) (simp add: configure_succeeds_def ex_tools_def)
  have cw: "os_path_join (cwd (ex_state [''READTHEDOCS'' \<mapsto> ''True''])) ''htslib'' = ''/src/htslib''"
    by (simp add: ex_state_def os_path_join_def)
  show ?thesis
    by (simp add: configure_library_eq[OF ex] fc ok cw new_events_def)
qed


section \<open>The scopes of the working directory and of the environment\<close>

lemma changedir_restores_cwd:
  assumes "prefix ''/'' (cwd s)"
  shows "cwd (snd (changedir path body s)) = cwd s"
  using assms by (simp add: changedir_def chdir_def os_path_join_def Let_def split: prod.splits)

lemma enter_exit_compiler_envvars:
  assumes "e ''CFLAGS'' = None \<or> sysconfig p ''CCSHARED'' = None"
  shows "exit_compiler_envvars (snd (enter_compiler_envvars p e)) (fst (enter_compiler_envvars p e)) = e"
proof -
  have w: "e ''CFLAGS'' = Some v \<Longrightarrow> with_ccshared p ''CFLAGS'' v = v" for v
    using assms by (auto simp: with_ccshared_def split: option.splits)
  have n: "var \<noteq> ''CFLAGS'' \<Longrightarrow> with_ccshared p var v = v" for var v
    by (simp add: with_ccshared_def split: option.splits)
  show ?thesis
    by (rule ext)
       (auto simp: enter_compiler_envvars_def exit_compiler_envvars_def set_compiler_envvar_def
          w n split: option.splits)
qed

lemma set_compiler_envvars_restores:
  assumes "environ s ''CFLAGS'' = None \<or> sysconfig p ''CCSHARED'' = None"
    and "\<And>s0. environ (snd (body s0)) = environ s0"
  shows "environ (snd (set_compiler_envvars p body s)) = environ s"
proof -
  obtain e1 tmp where e: "enter_compiler_envvars p (environ s) = (e1, tmp)"
    by (cases "enter_compiler_envvars p (environ s)")
  obtain r s' where b: "body (s\<lparr>environ := e1\<rparr>) = (r, s')"
    by (cases "body (s\<lparr>environ := e1\<rparr>)")
  have "environ s' = e1"
    using assms(2)[of "s\<lparr>environ := e1\<rparr>"] b by simp
  then show ?thesis
    using enter_exit_compiler_envvars[of "environ s" p, OF assms(1)] e b
    by (simp add: set_compiler_envvars_def)
qed

text \<open>
  C8, at the input where the code departs from it. The environment sets \<open>CFLAGS\<close> to
  \<open>-O3\<close> and \<open>sysconfig\<close> has \<open>CCSHARED = -fPIC\<close>. The configure step runs in
  \<open>/src/htslib\<close> and the working directory is \<open>/src\<close> again afterwards, but \<open>CFLAGS\<close> is
  \<open>-O3 -fPIC\<close> after the scope: \<open>set_compiler_envvars\<close> extends the variable in place and
  removes afterwards only the variables that it has created.
\<close>

theorem compiler_envvars_scope_leaves_CFLAGS_extended:
  "environ (ex_state [''CFLAGS'' \<mapsto> ''-O3'']) ''CFLAGS'' = Some ''-O3''
   \<and> environ (snd (configure_library (ex_tools (\<lambda>option. True)) ex_platform ''htslib'' None
                     [''--enable-libcurl'', ''--disable-libcurl''] (ex_state [''CFLAGS'' \<mapsto> ''-O3''])))
       ''CFLAGS'' = Some ''-O3 -fPIC''
   \<and> cwd (snd (configure_library (ex_tools (\<lambda>option. True)) ex_platform ''htslib'' None
                 [''--enable-libcurl'', ''--disable-libcurl''] (ex_state [''CFLAGS'' \<mapsto> ''-O3''])))
       = cwd (ex_state [''CFLAGS'' \<mapsto> ''-O3''])
   \<and> new_events (ex_state [''CFLAGS'' \<mapsto> ''-O3''])
        (snd (configure_library (ex_tools (\<lambda>option. True)) ex_platform ''htslib'' None
                 [''--enable-libcurl'', ''--disable-libcurl''] (ex_state [''CFLAGS'' \<mapsto> ''-O3''])))
       = [EvConfigure ''/src/htslib'' ''--enable-libcurl'']"
proof -
  have ex: "fs (ex_state [''CFLAGS'' \<mapsto> ''-O3'']) (os_path_join ''htslib'' ''configure'') \<noteq> None"
    by (simp add: ex_state_def os_path_join_def)
  have fc: "first_choice (ex_state [''CFLAGS'' \<mapsto> ''-O3'']) None = []"
    by (simp add: first_choice_def ex_state_def)
  have ok: "configure_succeeds (ex_tools (\<lambda>option. True)) ex_platform ''htslib''
               (ex_state [''CFLAGS'' \<mapsto> ''-O3'']) = (\<lambda>option. True)"
    by (rule ext) (simp add: configure_succeeds_def ex_tools_def)
  have en: "enter_compiler_envvars ex_platform [''CFLAGS'' \<mapsto> ''-O3'']
            = ([''CFLAGS'' \<mapsto> ''-O3 -fPIC'', ''CC'' \<mapsto> ''cc''], [''CC''])"
    by (auto simp: enter_compiler_envvars_def set_compiler_envvar_def with_ccshared_def ex_platform_def)
  show ?thesis
    by (simp add: configure_library_eq[OF ex] fc ok new_events_def)
       (simp add: ex_state_def os_path_join_def en exit_compiler_envvars_def)
qed


section \<open>The resolver\<close>

lemma attempted_nonempty: "xs \<noteq> [] \<Longrightarrow> attempted ok xs \<noteq> []"
  by (cases xs) simp_all

lemma set_attempted_subset: "set (attempted ok xs) \<subseteq> set xs"
  by (induction xs) auto

lemma configure_builtin_Inr_script:
  assumes "configure_builtin t p env_options s = (Inr bi, sb)"
  shows "fs s ''htslib/configure'' \<noteq> None"
proof (rule ccontr)
  assume "\<not> fs s ''htslib/configure'' \<noteq> None"
  then have "fs s (os_path_join ''htslib'' ''configure'') = None"
    by (simp add: os_path_join_def)
  from configure_library_missing_script[OF this, of t p env_options "[''--enable-libcurl'', ''--disable-libcurl'']"]
  show False
    using assms by (auto simp: configure_builtin_def)
qed

lemma configure_builtin_Inr_make:
  assumes "configure_builtin t p env_options s = (Inr bi, sb)"
  shows "\<exists>e d lines. make_print_config t e d = Inr lines
           \<and> htslib_make_options bi = foldl parse_config_line Map.empty lines
           \<and> builtin_libraries bi = libs_of_make_options (htslib_make_options bi)"
proof -
  from assms obtain e d lines where "make_print_config t e d = Inr lines"
    and "bi = \<lparr>htslib_configure_options = htslib_configure_options bi,
                htslib_make_options = foldl parse_config_line Map.empty lines,
                builtin_libraries = libs_of_make_options (foldl parse_config_line Map.empty lines)\<rparr>"
    by (auto simp: configure_builtin_def changedir_def run_make_print_config_def Let_def
        split: prod.splits sum.splits)
  then show ?thesis
    by (metis builtin.select_convs(2,3))
qed

lemma resolve_Inr:
  assumes "resolve t p s = (Inr r, s')"
  shows "\<exists>b. choose_objects (getenv_default s ''HTSLIB_MODE'' ''shared'')
               (environ s ''HTSLIB_LIBRARY_DIR'') (environ s ''HTSLIB_INCLUDE_DIR'') b = Inr r
          \<and> (if getenv_default s ''HTSLIB_MODE'' ''shared'' \<in> {''shared'', ''separate''}
              then \<exists>bi. b = Some bi \<and>
                     configure_builtin t p (environ s ''HTSLIB_CONFIGURE_OPTIONS'') s = (Inr bi, s')
              else b = None \<and> s' = s)"
  using assms
  by (auto simp: resolve_def Let_def split: if_splits prod.splits sum.splits)

lemma choose_objects_Inr:
  assumes "choose_objects mode library_dir include_dir b = Inr r"
  shows "HTSLIB_MODE r = mode \<and> configured r = b
       \<and> select_link_mode library_dir mode = Inr (link_mode r)"
  using assms
  by (auto simp: choose_objects_def split: sum.splits LinkMode.splits option.splits)

lemma select_link_mode_External:
  "select_link_mode library_dir mode = Inr External \<longleftrightarrow> truthy library_dir"
  by (simp add: select_link_mode_def)

lemma choose_objects_External:
  assumes "choose_objects mode library_dir include_dir b = Inr r" and "link_mode r = External"
  shows "\<exists>d. library_dir = Some d \<and> d \<noteq> [] \<and> htslib_library_dirs r = [d]
           \<and> htslib_include_dirs r = [include_dir]
           \<and> htslib_objects r = [] \<and> separate_htslib_objects r = []
           \<and> external_htslib_libraries r = [''z'', ''hts'']"
  using assms
  by (auto simp: choose_objects_def select_link_mode_def truthy_def
      split: sum.splits LinkMode.splits option.splits if_splits)

lemma choose_objects_Separate:
  assumes "choose_objects mode library_dir include_dir b = Inr r" and "link_mode r = Embedded_Separate"
  shows "htslib_objects r = [''htslib/libhts.a''] \<and> separate_htslib_objects r = [''htslib/libhts.a'']
       \<and> mode = ''separate'' \<and> \<not> truthy library_dir"
  using assms
  by (auto simp: choose_objects_def select_link_mode_def
      split: sum.splits LinkMode.splits option.splits if_splits)

lemma choose_objects_Shared:
  assumes "choose_objects mode library_dir include_dir b = Inr r" and "link_mode r = Embedded_Shared"
  shows "\<exists>bi objs. b = Some bi \<and> htslib_make_options bi ''LIBHTS_OBJS'' = Some objs
           \<and> htslib_objects r = map (os_path_join ''htslib'') (split_at CHR '' '' objs)
           \<and> separate_htslib_objects r = []
           \<and> mode = ''shared'' \<and> \<not> truthy library_dir"
  using assms
  by (auto simp: choose_objects_def select_link_mode_def
      split: sum.splits LinkMode.splits option.splits if_splits)

lemma abspath_all_Inr: "abspath_all ab xs = Inr ys \<Longrightarrow> None \<notin> set xs"
proof (induction xs arbitrary: ys)
  case Nil
  then show ?case by simp
next
  case (Cons a xs)
  then show ?case
    by (cases a) (auto split: sum.splits)
qed

lemma common_dirs_Inr:
  assumes "common_dirs ab include_os r = Inr dirs"
  shows "None \<notin> set (htslib_include_dirs r)"
proof -
  from assms obtain idirs where
    "abspath_all ab ([Some ''pysam''] @ htslib_include_dirs r @
        map Some ([''samtools'', ''samtools/lz4'', ''bcftools'', ''.''] @ include_os)) = Inr idirs"
    by (auto simp: common_dirs_def split: sum.splits)
  from abspath_all_Inr[OF this] show ?thesis by auto
qed

lemma prebuild_libchtslib_other_mode:
  "mode \<notin> {''shared'', ''separate''} \<Longrightarrow> prebuild_libchtslib t p mode x frc s = (None, s)"
  by (simp add: prebuild_libchtslib_def)

lemma resolve_configure_events:
  assumes "resolve t p s = (Inr r, s')"
  shows "(\<exists>d option. EvConfigure d option \<in> set (new_events s s'))
           \<longleftrightarrow> getenv_default s ''HTSLIB_MODE'' ''shared'' \<in> {''shared'', ''separate''}"
proof (cases "getenv_default s ''HTSLIB_MODE'' ''shared'' \<in> {''shared'', ''separate''}")
  case True
  with resolve_Inr[OF assms] obtain bi where
    b: "configure_builtin t p (environ s ''HTSLIB_CONFIGURE_OPTIONS'') s = (Inr bi, s')"
    by auto
  define tries where "tries = first_choice s (environ s ''HTSLIB_CONFIGURE_OPTIONS'') @
      [''--enable-libcurl'', ''--disable-libcurl'']"
  define att where "att = attempted (configure_succeeds t p ''htslib'' s) tries"
  have "tries \<noteq> []" by (simp add: tries_def)
  then have "att \<noteq> []" unfolding att_def by (rule attempted_nonempty)
  then obtain o1 rest where d: "att = o1 # rest" by (cases att) auto
  from configure_builtin_state[OF configure_builtin_Inr_script[OF b] b]
  obtain tl where "trace s' = trace s @ map (EvConfigure (os_path_join (cwd s) ''htslib'')) att @ tl"
    unfolding Let_def tries_def[symmetric] att_def[symmetric] by auto
  then have "EvConfigure (os_path_join (cwd s) ''htslib'') o1 \<in> set (new_events s s')"
    by (simp add: new_events_def d)
  with True show ?thesis by blast
next
  case False
  with resolve_Inr[OF assms] have "s' = s" by auto
  with False show ?thesis by (simp add: new_events_def)
qed

text \<open>
  C1, as the code has it. In a run in which the resolver returns, the External branch is
  taken exactly when \<open>HTSLIB_LIBRARY_DIR\<close> is supplied and not empty; the search paths are
  then exactly that directory and the value of \<open>HTSLIB_INCLUDE_DIR\<close>, the object lists are
  empty, and the common options can be built only if the include directory is supplied
  too. Whether the vendored library is configured does not depend on the directories: a
  configure step runs exactly when \<open>HTSLIB_MODE\<close>, whose default is \<open>shared\<close>, is \<open>shared\<close>
  or \<open>separate\<close>. For any other value the resolver changes nothing and the hook that
  builds the vendored library does nothing.
\<close>

theorem external_branch_and_configure_gate:
  assumes "resolve t p s = (Inr r, s')"
  shows "(link_mode r = External \<longleftrightarrow> truthy (environ s ''HTSLIB_LIBRARY_DIR''))
       \<and> (link_mode r = External \<longrightarrow>
            (\<exists>d. environ s ''HTSLIB_LIBRARY_DIR'' = Some d \<and> htslib_library_dirs r = [d])
            \<and> htslib_include_dirs r = [environ s ''HTSLIB_INCLUDE_DIR'']
            \<and> htslib_objects r = [] \<and> separate_htslib_objects r = []
            \<and> (\<forall>ab include_os dirs. common_dirs ab include_os r = Inr dirs
                  \<longrightarrow> environ s ''HTSLIB_INCLUDE_DIR'' \<noteq> None))
       \<and> HTSLIB_MODE r = getenv_default s ''HTSLIB_MODE'' ''shared''
       \<and> ((\<exists>d option. EvConfigure d option \<in> set (new_events s s'))
            \<longleftrightarrow> HTSLIB_MODE r \<in> {''shared'', ''separate''})
       \<and> (HTSLIB_MODE r \<notin> {''shared'', ''separate''} \<longrightarrow>
            s' = s \<and> (\<forall>x frc s2. prebuild_libchtslib t p (HTSLIB_MODE r) x frc s2 = (None, s2)))"
proof -
  from resolve_Inr[OF assms] obtain b where
    c: "choose_objects (getenv_default s ''HTSLIB_MODE'' ''shared'')
          (environ s ''HTSLIB_LIBRARY_DIR'') (environ s ''HTSLIB_INCLUDE_DIR'') b = Inr r"
    and u: "getenv_default s ''HTSLIB_MODE'' ''shared'' \<notin> {''shared'', ''separate''} \<Longrightarrow> s' = s"
    by (auto split: if_splits)
  note co = choose_objects_Inr[OF c]
  have m: "HTSLIB_MODE r = getenv_default s ''HTSLIB_MODE'' ''shared''"
    using co by simp
  have 1: "link_mode r = External \<longleftrightarrow> truthy (environ s ''HTSLIB_LIBRARY_DIR'')"
    using co select_link_mode_External[of "environ s ''HTSLIB_LIBRARY_DIR''" "HTSLIB_MODE r"] by auto
  have 2: "link_mode r = External \<Longrightarrow>
            (\<exists>d. environ s ''HTSLIB_LIBRARY_DIR'' = Some d \<and> htslib_library_dirs r = [d])
            \<and> htslib_include_dirs r = [environ s ''HTSLIB_INCLUDE_DIR'']
            \<and> htslib_objects r = [] \<and> separate_htslib_objects r = []"
    using choose_objects_External[OF c] by auto
  have 3: "link_mode r = External \<Longrightarrow> common_dirs ab include_os r = Inr dirs
            \<Longrightarrow> environ s ''HTSLIB_INCLUDE_DIR'' \<noteq> None" for ab include_os dirs
    using 2 common_dirs_Inr[of ab include_os r dirs] by auto
  have 4: "(\<exists>d option. EvConfigure d option \<in> set (new_events s s'))
            \<longleftrightarrow> HTSLIB_MODE r \<in> {''shared'', ''separate''}"
    using resolve_configure_events[OF assms] m by simp
  have 5: "HTSLIB_MODE r \<notin> {''shared'', ''separate''} \<Longrightarrow>
            s' = s \<and> (\<forall>x frc s2. prebuild_libchtslib t p (HTSLIB_MODE r) x frc s2 = (None, s2))"
    using u m prebuild_libchtslib_other_mode by auto
  from 1 2 3 m 4 5 show ?thesis by blast
qed


subsection \<open>The concrete build, resolved\<close>

lemma ex_first_choice:
  "first_choice (ex_state e) None = (if e ''READTHEDOCS'' = Some ''True'' then [''--disable-bz2''] else [])"
  by (simp add: first_choice_def ex_state_def)

lemma ex_script: "fs (ex_state e) (os_path_join ''htslib'' ''configure'') \<noteq> None"
  by (simp add: ex_state_def os_path_join_def)

lemma ex_configure_succeeds: "configure_succeeds (ex_tools ok) p d s = ok"
  by (rule ext) (simp add: configure_succeeds_def ex_tools_def)

lemma ex_parse:
  "parse_config_line (parse_config_line Map.empty ''LIBHTS_OBJS = kfunc.o cram/cram_io.o'') ''LIBS = -lz -lm''
   = [''LIBHTS_OBJS'' \<mapsto> ''kfunc.o cram/cram_io.o'', ''LIBS'' \<mapsto> ''-lz -lm'']"
  by (simp add: parse_config_line_def split_at_def strip_def isspace_def)

lemma ex_libs:
  "libs_of_make_options [''LIBHTS_OBJS'' \<mapsto> ''kfunc.o cram/cram_io.o'', ''LIBS'' \<mapsto> ''-lz -lm'']
   = [''z'', ''z'', ''m'']"
  by (simp add: libs_of_make_options_def split_at_def strip_def isspace_def sub_leading_l_def)

lemma ex_enter:
  "e ''CC'' = None \<Longrightarrow> e ''CFLAGS'' = None \<Longrightarrow> e ''LDFLAGS'' = None \<Longrightarrow>
   enter_compiler_envvars ex_platform e
     = (e(''CC'' \<mapsto> ''cc'', ''CFLAGS'' \<mapsto> ''-O2 -fPIC''), [''CC'', ''CFLAGS''])"
  by (simp add: enter_compiler_envvars_def set_compiler_envvar_def with_ccshared_def ex_platform_def)

lemma ex_exit:
  "e ''CC'' = None \<Longrightarrow> e ''CFLAGS'' = None \<Longrightarrow>
   exit_compiler_envvars [''CC'', ''CFLAGS''] (e(''CC'' \<mapsto> ''cc'', ''CFLAGS'' \<mapsto> ''-O2 -fPIC'')) = e"
  by (rule ext) (simp add: exit_compiler_envvars_def)

lemma ex_configure_builtin:
  assumes "e ''READTHEDOCS'' = None" "e ''CC'' = None" "e ''CFLAGS'' = None" "e ''LDFLAGS'' = None"
    "e ''MAKE'' = None"
  shows "configure_builtin (ex_tools (\<lambda>option. True)) ex_platform None (ex_state e)
           = (Inr ex_builtin, ex_configured e)"
proof -
  have en: "enter_compiler_envvars ex_platform (environ (ex_state e))
            = (e(''CC'' \<mapsto> ''cc'', ''CFLAGS'' \<mapsto> ''-O2 -fPIC''), [''CC'', ''CFLAGS''])"
    using assms by (simp add: ex_enter ex_state_def)
  show ?thesis
    using assms
    apply (simp add: configure_builtin_def configure_library_eq[OF ex_script] ex_first_choice
        ex_configure_succeeds en ex_exit)
    apply (simp add: changedir_def run_make_print_config_def chdir_def emit_def Let_def)
    apply (simp add: ex_tools_def ex_parse ex_libs ex_builtin_def ex_configured_def)
    apply (simp add: ex_state_def os_path_join_def make_program_def)
    done
qed

lemma ex_resolve:
  assumes "e ''READTHEDOCS'' = None" "e ''CC'' = None" "e ''CFLAGS'' = None" "e ''LDFLAGS'' = None"
    "e ''MAKE'' = None" "e ''HTSLIB_CONFIGURE_OPTIONS'' = None"
    and "getenv_default (ex_state e) ''HTSLIB_MODE'' ''shared'' \<in> {''shared'', ''separate''}"
  shows "resolve (ex_tools (\<lambda>option. True)) ex_platform (ex_state e)
           = (choose_objects (getenv_default (ex_state e) ''HTSLIB_MODE'' ''shared'')
                (e ''HTSLIB_LIBRARY_DIR'') (e ''HTSLIB_INCLUDE_DIR'') (Some ex_builtin),
              ex_configured e)"
proof -
  have src: "fs (ex_state e) (source_pattern_htslib ex_platform) = Some []"
    by (simp add: ex_state_def source_pattern_htslib_def ex_platform_def)
  have env: "environ (ex_state e) = e"
    by (simp add: ex_state_def)
  show ?thesis
    using assms(7)
    by (simp add: resolve_def Let_def env src assms(6) ex_configure_builtin[OF assms(1-5)])
qed

lemma ex_resolve_external:
  "resolve (ex_tools (\<lambda>option. True)) ex_platform (ex_state ex_external_env)
     = (Inr \<lparr>HTSLIB_MODE = ''shared'', link_mode = External, configured = Some ex_builtin,
             htslib_objects = [], separate_htslib_objects = [],
             htslib_library_dirs = [''/opt/lib''], htslib_include_dirs = [Some ''/opt/include''],
             external_htslib_libraries = [''z'', ''hts'']\<rparr>,
        ex_configured ex_external_env)"
proof -
  have m: "getenv_default (ex_state ex_external_env) ''HTSLIB_MODE'' ''shared'' = ''shared''"
    by (simp add: getenv_default_def ex_state_def ex_external_env_def)
  have c: "choose_objects ''shared'' (ex_external_env ''HTSLIB_LIBRARY_DIR'')
             (ex_external_env ''HTSLIB_INCLUDE_DIR'') (Some ex_builtin)
           = Inr \<lparr>HTSLIB_MODE = ''shared'', link_mode = External, configured = Some ex_builtin,
             htslib_objects = [], separate_htslib_objects = [],
             htslib_library_dirs = [''/opt/lib''], htslib_include_dirs = [Some ''/opt/include''],
             external_htslib_libraries = [''z'', ''hts'']\<rparr>"
    by (simp add: ex_external_env_def choose_objects_def select_link_mode_def truthy_def)
  have "resolve (ex_tools (\<lambda>option. True)) ex_platform (ex_state ex_external_env)
           = (choose_objects (getenv_default (ex_state ex_external_env) ''HTSLIB_MODE'' ''shared'')
                (ex_external_env ''HTSLIB_LIBRARY_DIR'') (ex_external_env ''HTSLIB_INCLUDE_DIR'')
                (Some ex_builtin),
              ex_configured ex_external_env)"
    by (rule ex_resolve) (simp_all add: m, simp_all add: ex_external_env_def)
  then show ?thesis
    by (simp add: m c)
qed

theorem external_branch_and_configure_gate_witness:
  "resolve (ex_tools (\<lambda>option. True)) ex_platform (ex_state ex_external_env)
     = (Inr (projr (fst (resolve (ex_tools (\<lambda>option. True)) ex_platform (ex_state ex_external_env)))),
        ex_configured ex_external_env)
   \<and> truthy (environ (ex_state ex_external_env) ''HTSLIB_LIBRARY_DIR'')
   \<and> link_mode (projr (fst (resolve (ex_tools (\<lambda>option. True)) ex_platform (ex_state ex_external_env))))
       = External
   \<and> HTSLIB_MODE (projr (fst (resolve (ex_tools (\<lambda>option. True)) ex_platform (ex_state ex_external_env))))
       \<in> {''shared'', ''separate''}
   \<and> (\<exists>d option. EvConfigure d option
          \<in> set (new_events (ex_state ex_external_env) (ex_configured ex_external_env)))"
proof -
  have r: "resolve (ex_tools (\<lambda>option. True)) ex_platform (ex_state ex_external_env)
     = (Inr (projr (fst (resolve (ex_tools (\<lambda>option. True)) ex_platform (ex_state ex_external_env)))),
        ex_configured ex_external_env)"
    by (simp add: ex_resolve_external)
  have t: "truthy (environ (ex_state ex_external_env) ''HTSLIB_LIBRARY_DIR'')"
    by (simp add: truthy_def ex_state_def ex_external_env_def)
  have m: "getenv_default (ex_state ex_external_env) ''HTSLIB_MODE'' ''shared'' = ''shared''"
    by (simp add: getenv_default_def ex_state_def ex_external_env_def)
  from external_branch_and_configure_gate[OF r] r t m show ?thesis
    by simp
qed

theorem external_without_build_counterexample:
  "environ (ex_state ex_external_env) ''HTSLIB_LIBRARY_DIR'' = Some ''/opt/lib''
   \<and> environ (ex_state ex_external_env) ''HTSLIB_INCLUDE_DIR'' = Some ''/opt/include''
   \<and> \<not> isl (fst (resolve (ex_tools (\<lambda>option. True)) ex_platform (ex_state ex_external_env)))
   \<and> link_mode (projr (fst (resolve (ex_tools (\<lambda>option. True)) ex_platform (ex_state ex_external_env))))
       = External
   \<and> new_events (ex_state ex_external_env)
        (snd (resolve (ex_tools (\<lambda>option. True)) ex_platform (ex_state ex_external_env)))
       = [EvConfigure ''/src/htslib'' ''--enable-libcurl'', EvMakePrintConfig ''make'' ''/src/htslib'']"
  by (simp add: ex_resolve_external)
     (simp add: ex_state_def ex_external_env_def ex_configured_def new_events_def)


section \<open>The objects attached to the modules\<close>

lemma modules_shape:
  "\<exists>ms. modules r = \<lparr>mod_name = ''pysam.libchtslib'', mod_prebuild_func = Some Prebuild_libchtslib,
                       mod_extra_objects = htslib_objects r\<rparr> # ms
        \<and> (\<forall>m \<in> set ms. mod_extra_objects m = separate_htslib_objects r)"
  by (auto simp: modules_def)

text \<open>
  C2. In a run in which the resolver returns: in Embedded-Separate mode the list of extra
  objects of every module is the static archive \<open>htslib/libhts.a\<close>; in Embedded-Shared
  mode the first module, \<open>pysam.libchtslib\<close>, gets the object files that
  \<open>make print-config\<close> reports in \<open>LIBHTS_OBJS\<close>, each under \<open>htslib\<close>, and every other
  module gets none; in External mode every module gets none.
\<close>

theorem extra_objects_follow_link_mode:
  assumes "resolve t p s = (Inr r, s')"
  shows "(link_mode r = Embedded_Separate \<longrightarrow>
            (\<forall>m \<in> set (modules r). mod_extra_objects m = [''htslib/libhts.a'']))
       \<and> (link_mode r = Embedded_Shared \<longrightarrow>
            (\<exists>m ms bi objs e d lines.
               modules r = m # ms \<and> mod_name m = ''pysam.libchtslib''
               \<and> configured r = Some bi
               \<and> make_print_config t e d = Inr lines
               \<and> htslib_make_options bi = foldl parse_config_line Map.empty lines
               \<and> htslib_make_options bi ''LIBHTS_OBJS'' = Some objs
               \<and> mod_extra_objects m = map (os_path_join ''htslib'') (split_at CHR '' '' objs)
               \<and> (\<forall>m' \<in> set ms. mod_extra_objects m' = [])))
       \<and> (link_mode r = External \<longrightarrow> (\<forall>m \<in> set (modules r). mod_extra_objects m = []))"
proof -
  from resolve_Inr[OF assms] obtain b where
    c: "choose_objects (getenv_default s ''HTSLIB_MODE'' ''shared'')
          (environ s ''HTSLIB_LIBRARY_DIR'') (environ s ''HTSLIB_INCLUDE_DIR'') b = Inr r"
    and cb: "\<And>bi. b = Some bi \<Longrightarrow>
          getenv_default s ''HTSLIB_MODE'' ''shared'' \<in> {''shared'', ''separate''} \<Longrightarrow>
          configure_builtin t p (environ s ''HTSLIB_CONFIGURE_OPTIONS'') s = (Inr bi, s')"
    by (auto split: if_splits)
  obtain ms where ms: "modules r = \<lparr>mod_name = ''pysam.libchtslib'',
        mod_prebuild_func = Some Prebuild_libchtslib, mod_extra_objects = htslib_objects r\<rparr> # ms"
    and rest: "\<forall>m \<in> set ms. mod_extra_objects m = separate_htslib_objects r"
    using modules_shape[of r] by blast
  have sep: "link_mode r = Embedded_Separate \<Longrightarrow>
            \<forall>m \<in> set (modules r). mod_extra_objects m = [''htslib/libhts.a'']"
    using choose_objects_Separate[OF c] ms rest by auto
  have external: "link_mode r = External \<Longrightarrow> \<forall>m \<in> set (modules r). mod_extra_objects m = []"
    using choose_objects_External[OF c] ms rest by auto
  have shared: "\<exists>m ms bi objs e d lines.
               modules r = m # ms \<and> mod_name m = ''pysam.libchtslib''
               \<and> configured r = Some bi
               \<and> make_print_config t e d = Inr lines
               \<and> htslib_make_options bi = foldl parse_config_line Map.empty lines
               \<and> htslib_make_options bi ''LIBHTS_OBJS'' = Some objs
               \<and> mod_extra_objects m = map (os_path_join ''htslib'') (split_at CHR '' '' objs)
               \<and> (\<forall>m' \<in> set ms. mod_extra_objects m' = [])"
    if sh: "link_mode r = Embedded_Shared"
  proof -
    from choose_objects_Shared[OF c sh] obtain bi objs where
      b: "b = Some bi" and o: "htslib_make_options bi ''LIBHTS_OBJS'' = Some objs"
      and h: "htslib_objects r = map (os_path_join ''htslib'') (split_at CHR '' '' objs)"
      and e: "separate_htslib_objects r = []"
      and m: "getenv_default s ''HTSLIB_MODE'' ''shared'' = ''shared''"
      by auto
    from cb[OF b] m have "configure_builtin t p (environ s ''HTSLIB_CONFIGURE_OPTIONS'') s = (Inr bi, s')"
      by simp
    from configure_builtin_Inr_make[OF this] obtain e' d lines where
      mk: "make_print_config t e' d = Inr lines"
      "htslib_make_options bi = foldl parse_config_line Map.empty lines"
      by blast
    have cf: "configured r = Some bi"
      using choose_objects_Inr[OF c] b by simp
    show ?thesis
      using ms rest h e o mk cf by auto
  qed
  from sep external shared show ?thesis by blast
qed

theorem extra_objects_follow_link_mode_witness:
  "resolve (ex_tools (\<lambda>option. True)) ex_platform (ex_state Map.empty)
     = (Inr (projr (fst (resolve (ex_tools (\<lambda>option. True)) ex_platform (ex_state Map.empty)))),
        ex_configured Map.empty)
   \<and> link_mode (projr (fst (resolve (ex_tools (\<lambda>option. True)) ex_platform (ex_state Map.empty))))
       = Embedded_Shared
   \<and> map mod_extra_objects
        (modules (projr (fst (resolve (ex_tools (\<lambda>option. True)) ex_platform (ex_state Map.empty)))))
       = [[''htslib/kfunc.o'', ''htslib/cram/cram_io.o''], [], [], [], [], [], [], [], [], [], [], [], []]
   \<and> resolve (ex_tools (\<lambda>option. True)) ex_platform (ex_state ex_separate_env)
     = (Inr (projr (fst (resolve (ex_tools (\<lambda>option. True)) ex_platform (ex_state ex_separate_env)))),
        ex_configured ex_separate_env)
   \<and> link_mode (projr (fst (resolve (ex_tools (\<lambda>option. True)) ex_platform (ex_state ex_separate_env))))
       = Embedded_Separate
   \<and> map mod_extra_objects
        (modules (projr (fst (resolve (ex_tools (\<lambda>option. True)) ex_platform (ex_state ex_separate_env)))))
       = replicate 13 [''htslib/libhts.a'']
   \<and> link_mode (projr (fst (resolve (ex_tools (\<lambda>option. True)) ex_platform (ex_state ex_external_env))))
       = External
   \<and> map mod_extra_objects
        (modules (projr (fst (resolve (ex_tools (\<lambda>option. True)) ex_platform (ex_state ex_external_env)))))
       = replicate 13 []"
proof -
  have m1: "getenv_default (ex_state Map.empty) ''HTSLIB_MODE'' ''shared'' = ''shared''"
    by (simp add: getenv_default_def ex_state_def)
  have "resolve (ex_tools (\<lambda>option. True)) ex_platform (ex_state Map.empty)
           = (choose_objects (getenv_default (ex_state Map.empty) ''HTSLIB_MODE'' ''shared'')
                (Map.empty ''HTSLIB_LIBRARY_DIR'') (Map.empty ''HTSLIB_INCLUDE_DIR'') (Some ex_builtin),
              ex_configured Map.empty)"
    by (rule ex_resolve) (simp_all add: m1)
  then have r1: "resolve (ex_tools (\<lambda>option. True)) ex_platform (ex_state Map.empty)
     = (Inr \<lparr>HTSLIB_MODE = ''shared'', link_mode = Embedded_Shared, configured = Some ex_builtin,
             htslib_objects = [''htslib/kfunc.o'', ''htslib/cram/cram_io.o''],
             separate_htslib_objects = [],
             htslib_library_dirs = [''.''], htslib_include_dirs = [Some ''htslib''],
             external_htslib_libraries = [''z'', ''z'', ''m'']\<rparr>,
        ex_configured Map.empty)"
    by (simp add: m1 choose_objects_def select_link_mode_def truthy_def ex_builtin_def
        split_at_def os_path_join_def)
  have m2: "getenv_default (ex_state ex_separate_env) ''HTSLIB_MODE'' ''shared'' = ''separate''"
    by (simp add: getenv_default_def ex_state_def ex_separate_env_def)
  have n2: "ex_separate_env ''HTSLIB_LIBRARY_DIR'' = None"
    by (simp add: ex_separate_env_def)
  have "resolve (ex_tools (\<lambda>option. True)) ex_platform (ex_state ex_separate_env)
           = (choose_objects (getenv_default (ex_state ex_separate_env) ''HTSLIB_MODE'' ''shared'')
                (ex_separate_env ''HTSLIB_LIBRARY_DIR'') (ex_separate_env ''HTSLIB_INCLUDE_DIR'')
                (Some ex_builtin),
              ex_configured ex_separate_env)"
    by (rule ex_resolve) (simp_all add: m2, simp_all add: ex_separate_env_def)
  then have r2: "resolve (ex_tools (\<lambda>option. True)) ex_platform (ex_state ex_separate_env)
     = (Inr \<lparr>HTSLIB_MODE = ''separate'', link_mode = Embedded_Separate, configured = Some ex_builtin,
             htslib_objects = [''htslib/libhts.a''],
             separate_htslib_objects = [''htslib/libhts.a''],
             htslib_library_dirs = [], htslib_include_dirs = [Some ''htslib''],
             external_htslib_libraries = [''z'', ''z'', ''m'']\<rparr>,
        ex_configured ex_separate_env)"
    by (simp add: m2 choose_objects_def select_link_mode_def truthy_def ex_builtin_def n2)
  note r3 = ex_resolve_external
  have a1: "resolve (ex_tools (\<lambda>option. True)) ex_platform (ex_state Map.empty)
     = (Inr (projr (fst (resolve (ex_tools (\<lambda>option. True)) ex_platform (ex_state Map.empty)))),
        ex_configured Map.empty)"
    by (simp add: r1)
  have a2: "resolve (ex_tools (\<lambda>option. True)) ex_platform (ex_state ex_separate_env)
     = (Inr (projr (fst (resolve (ex_tools (\<lambda>option. True)) ex_platform (ex_state ex_separate_env)))),
        ex_configured ex_separate_env)"
    by (simp add: r2)
  have a3: "resolve (ex_tools (\<lambda>option. True)) ex_platform (ex_state ex_external_env)
     = (Inr (projr (fst (resolve (ex_tools (\<lambda>option. True)) ex_platform (ex_state ex_external_env)))),
        ex_configured ex_external_env)"
    by (simp add: r3)
  have l1: "link_mode (projr (fst (resolve (ex_tools (\<lambda>option. True)) ex_platform (ex_state Map.empty))))
       = Embedded_Shared"
    by (simp add: r1)
  have l2: "link_mode (projr (fst (resolve (ex_tools (\<lambda>option. True)) ex_platform (ex_state ex_separate_env))))
       = Embedded_Separate"
    by (simp add: r2)
  have l3: "link_mode (projr (fst (resolve (ex_tools (\<lambda>option. True)) ex_platform (ex_state ex_external_env))))
       = External"
    by (simp add: r3)
  have o1: "map mod_extra_objects
        (modules (projr (fst (resolve (ex_tools (\<lambda>option. True)) ex_platform (ex_state Map.empty)))))
       = [[''htslib/kfunc.o'', ''htslib/cram/cram_io.o''], [], [], [], [], [], [], [], [], [], [], [], []]"
    by (simp add: r1 modules_def consumer_names_def)
  have len: "length (modules r) = 13" for r
    by (simp add: modules_def consumer_names_def)
  have rep: "(\<forall>m \<in> set ms. f m = v) \<Longrightarrow> length ms = 13 \<Longrightarrow> map f ms = replicate 13 v"
    for ms :: "module_decl list" and f :: "module_decl \<Rightarrow> string list" and v
    by (metis map_replicate_const map_eq_conv)
  from extra_objects_follow_link_mode[OF a2] l2
  have o2: "map mod_extra_objects
        (modules (projr (fst (resolve (ex_tools (\<lambda>option. True)) ex_platform (ex_state ex_separate_env)))))
       = replicate 13 [''htslib/libhts.a'']"
    by (intro rep len) simp
  from extra_objects_follow_link_mode[OF a3] l3
  have o3: "map mod_extra_objects
        (modules (projr (fst (resolve (ex_tools (\<lambda>option. True)) ex_platform (ex_state ex_external_env)))))
       = replicate 13 []"
    by (intro rep len) simp
  from extra_objects_follow_link_mode[OF a1] a1 a2 l1 l2 l3 o1 o2 o3
  show ?thesis
    by simp
qed


section \<open>Building the vendored library\<close>

lemma write_configvars_header_frame:
  "fs (write_configvars_header p filename x pfx s) other
     = (if other = filename then fs (write_configvars_header p filename x pfx s) filename else fs s other)"
  "cwd (write_configvars_header p filename x pfx s) = cwd s"
  "environ (write_configvars_header p filename x pfx s) = environ s"
  "compiler (write_configvars_header p filename x pfx s) = compiler s"
  "compiler_so (write_configvars_header p filename x pfx s) = compiler_so s"
  "\<exists>msg content. trace (write_configvars_header p filename x pfx s)
     = trace s @ [EvLog Info msg, EvWrite filename content]"
  by (simp_all add: write_configvars_header_def write_file_def emit_def log_def Let_def)

lemma prebuild_libchtslib_build:
  assumes "mode \<in> {''shared'', ''separate''}" and "frc \<or> fs s ''htslib/libhts.a'' = None"
  shows "\<exists>s' msg content msg'.
           prebuild_libchtslib t p mode x frc s
             = (make_fails t (environ s) (os_path_join (cwd s) ''htslib'') (lib_static_targets x), s')
         \<and> trace s' = trace s @ [EvLog Info msg, EvWrite ''htslib/config_vars.h'' content, EvLog Info msg',
                EvMake (make_program s) (os_path_join (cwd s) ''htslib'') (lib_static_targets x)]
         \<and> compiler s' = compiler s \<and> compiler_so s' = compiler_so s"
proof -
  define s1 where "s1 = write_configvars_header p ''htslib/config_vars.h'' x ''HTS'' s"
  have f: "fs s1 ''htslib/libhts.a'' = fs s ''htslib/libhts.a''"
    unfolding s1_def by (subst write_configvars_header_frame(1)) simp
  obtain msg content where tr: "trace s1 = trace s @ [EvLog Info msg, EvWrite ''htslib/config_vars.h'' content]"
    unfolding s1_def using write_configvars_header_frame(6) by blast
  have e: "environ s1 = environ s" and c: "cwd s1 = cwd s"
    and k: "compiler s1 = compiler s" "compiler_so s1 = compiler_so s"
    unfolding s1_def by (simp_all add: write_configvars_header_frame)
  show ?thesis
    using assms f
    by (simp add: prebuild_libchtslib_def s1_def[symmetric] Let_def changedir_def run_make_def
        chdir_def emit_def log_def tr e c k make_program_def)
qed

lemma prebuild_libchtslib_skip:
  assumes "mode \<in> {''shared'', ''separate''}" and "\<not> frc" and "fs s ''htslib/libhts.a'' \<noteq> None"
  shows "\<exists>s' msg content.
           prebuild_libchtslib t p mode x frc s = (None, s')
         \<and> trace s' = trace s @ [EvLog Info msg, EvWrite ''htslib/config_vars.h'' content,
                EvLog Warning (''skipping '' @ [CHR 0x27] @ ''libhts.a'' @ [CHR 0x27] @ '' (already built)'')]
         \<and> compiler s' = compiler s \<and> compiler_so s' = compiler_so s"
proof -
  define s1 where "s1 = write_configvars_header p ''htslib/config_vars.h'' x ''HTS'' s"
  have f: "fs s1 ''htslib/libhts.a'' = fs s ''htslib/libhts.a''"
    unfolding s1_def by (subst write_configvars_header_frame(1)) simp
  obtain msg content where tr: "trace s1 = trace s @ [EvLog Info msg, EvWrite ''htslib/config_vars.h'' content]"
    unfolding s1_def using write_configvars_header_frame(6) by blast
  have k: "compiler s1 = compiler s" "compiler_so s1 = compiler_so s"
    unfolding s1_def by (simp_all add: write_configvars_header_frame)
  from assms(3) obtain y where y: "fs s ''htslib/libhts.a'' = Some y"
    by blast
  show ?thesis
    using assms(1,2)
    by (simp add: prebuild_libchtslib_def s1_def[symmetric] Let_def emit_def log_def tr k f y)
qed

text \<open>
  C9, as the code has it. The hook run before \<open>pysam.libchtslib\<close> is built calls
  \<open>make\<close> exactly when \<open>HTSLIB_MODE\<close> is \<open>shared\<close> or \<open>separate\<close> and either the
  rebuild is forced or \<open>htslib/libhts.a\<close> does not exist. The call is made in the
  directory \<open>htslib\<close>, for the target \<open>lib-static\<close>, with \<open>ALL_CPPFLAGS\<close> set to
  \<open>-I.\<close>, the compile arguments and the macro definitions of the extension, and
  \<open>$(CPPFLAGS)\<close>. When the archive exists and the rebuild is not forced, the hook returns
  normally, logs a warning that the build is skipped, and logs no error.
\<close>

theorem vendored_build_gate:
  "(let r = fst (prebuild_libchtslib t p mode x frc s);
        new = new_events s (snd (prebuild_libchtslib t p mode x frc s))
    in ((\<exists>prog d targets. EvMake prog d targets \<in> set new)
          \<longleftrightarrow> mode \<in> {''shared'', ''separate''} \<and> (frc \<or> fs s ''htslib/libhts.a'' = None))
     \<and> (\<forall>prog d targets. EvMake prog d targets \<in> set new \<longrightarrow>
           prog = make_program s \<and> d = os_path_join (cwd s) ''htslib''
           \<and> targets = [''ALL_CPPFLAGS=-I. '' @ join '' '' (extra_compile_args x) @ '' '' @
                          join '' '' (map format_macro_option (define_macros x)) @ '' $(CPPFLAGS)'',
                        ''lib-static''])
     \<and> (mode \<in> {''shared'', ''separate''} \<and> \<not> frc \<and> fs s ''htslib/libhts.a'' \<noteq> None \<longrightarrow>
           r = None
           \<and> EvLog Warning (''skipping '' @ [CHR 0x27] @ ''libhts.a'' @ [CHR 0x27] @ '' (already built)'')
               \<in> set new
           \<and> (\<forall>msg. EvLog Error msg \<notin> set new)))"
proof -
  have tg: "lib_static_targets x = [''ALL_CPPFLAGS=-I. '' @ join '' '' (extra_compile_args x) @ '' '' @
                          join '' '' (map format_macro_option (define_macros x)) @ '' $(CPPFLAGS)'',
                        ''lib-static'']"
    by (simp add: lib_static_targets_def Let_def)
  consider (other) "mode \<notin> {''shared'', ''separate''}"
    | (build) "mode \<in> {''shared'', ''separate''}" "frc \<or> fs s ''htslib/libhts.a'' = None"
    | (skip) "mode \<in> {''shared'', ''separate''}" "\<not> frc" "fs s ''htslib/libhts.a'' \<noteq> None"
    by blast
  then show ?thesis
  proof cases
    case other
    then show ?thesis
      by (simp add: prebuild_libchtslib_other_mode new_events_def)
  next
    case build
    from prebuild_libchtslib_build[OF build, of t p x] show ?thesis
      using build unfolding Let_def tg[symmetric] by (auto simp: new_events_def)
  next
    case skip
    from prebuild_libchtslib_skip[OF skip, of t p x] show ?thesis
      using skip unfolding Let_def by (auto simp: new_events_def)
  qed
qed

theorem vendored_build_gate_witness:
  "fst (prebuild_libchtslib (ex_tools (\<lambda>option. True)) ex_platform ''shared'' ex_ext False ex_built) = None
   \<and> EvLog Warning (''skipping '' @ [CHR 0x27] @ ''libhts.a'' @ [CHR 0x27] @ '' (already built)'')
       \<in> set (new_events ex_built
                (snd (prebuild_libchtslib (ex_tools (\<lambda>option. True)) ex_platform ''shared'' ex_ext False ex_built)))
   \<and> fs ex_built ''htslib/libhts.a'' = Some ''''
   \<and> EvMake ''make'' ''/src/htslib''
        [''ALL_CPPFLAGS=-I. -Wno-unused -DBUILDING_WHEEL $(CPPFLAGS)'', ''lib-static'']
       \<in> set (new_events ex_built
                (snd (prebuild_libchtslib (ex_tools (\<lambda>option. True)) ex_platform ''shared'' ex_ext True ex_built)))"
proof -
  have f: "fs ex_built ''htslib/libhts.a'' = Some ''''"
    by (simp add: ex_built_def)
  have mp: "make_program ex_built = ''make''" and cw: "os_path_join (cwd ex_built) ''htslib'' = ''/src/htslib''"
    by (simp_all add: make_program_def ex_built_def ex_state_def os_path_join_def)
  have tg: "[''ALL_CPPFLAGS=-I. '' @ join '' '' (extra_compile_args ex_ext) @ '' '' @
                          join '' '' (map format_macro_option (define_macros ex_ext)) @ '' $(CPPFLAGS)'',
                        ''lib-static'']
            = [''ALL_CPPFLAGS=-I. -Wno-unused -DBUILDING_WHEEL $(CPPFLAGS)'', ''lib-static'']"
    by (simp add: ex_ext_def format_macro_option_def)
  from vendored_build_gate[of "ex_tools (\<lambda>option. True)" ex_platform "''shared''" ex_ext False ex_built] f
  have a: "fst (prebuild_libchtslib (ex_tools (\<lambda>option. True)) ex_platform ''shared'' ex_ext False ex_built) = None
   \<and> EvLog Warning (''skipping '' @ [CHR 0x27] @ ''libhts.a'' @ [CHR 0x27] @ '' (already built)'')
       \<in> set (new_events ex_built
                (snd (prebuild_libchtslib (ex_tools (\<lambda>option. True)) ex_platform ''shared'' ex_ext False ex_built)))"
    unfolding Let_def by simp
  from vendored_build_gate[of "ex_tools (\<lambda>option. True)" ex_platform "''shared''" ex_ext True ex_built]
  have "\<exists>prog d targets. EvMake prog d targets
       \<in> set (new_events ex_built
                (snd (prebuild_libchtslib (ex_tools (\<lambda>option. True)) ex_platform ''shared'' ex_ext True ex_built)))
        \<and> prog = make_program ex_built \<and> d = os_path_join (cwd ex_built) ''htslib''
           \<and> targets = [''ALL_CPPFLAGS=-I. '' @ join '' '' (extra_compile_args ex_ext) @ '' '' @
                          join '' '' (map format_macro_option (define_macros ex_ext)) @ '' $(CPPFLAGS)'',
                        ''lib-static'']"
    unfolding Let_def by blast
  then have b: "EvMake ''make'' ''/src/htslib''
        [''ALL_CPPFLAGS=-I. -Wno-unused -DBUILDING_WHEEL $(CPPFLAGS)'', ''lib-static'']
       \<in> set (new_events ex_built
                (snd (prebuild_libchtslib (ex_tools (\<lambda>option. True)) ex_platform ''shared'' ex_ext True ex_built)))"
    unfolding mp cw tg by blast
  from a f b show ?thesis by blast
qed

theorem external_mode_still_builds_counterexample:
  "select_link_mode (environ (ex_state ex_external_env) ''HTSLIB_LIBRARY_DIR'')
     (getenv_default (ex_state ex_external_env) ''HTSLIB_MODE'' ''shared'') = Inr External
   \<and> link_mode (projr (fst (resolve (ex_tools (\<lambda>option. True)) ex_platform (ex_state ex_external_env))))
       = External
   \<and> EvMake ''make'' ''/src/htslib''
        [''ALL_CPPFLAGS=-I. -Wno-unused -DBUILDING_WHEEL $(CPPFLAGS)'', ''lib-static'']
       \<in> set (new_events (ex_configured ex_external_env)
                (snd (prebuild_libchtslib (ex_tools (\<lambda>option. True)) ex_platform
                        (HTSLIB_MODE (projr (fst (resolve (ex_tools (\<lambda>option. True)) ex_platform
                                                    (ex_state ex_external_env)))))
                        ex_ext False (ex_configured ex_external_env))))"
proof -
  have m: "''shared'' \<in> {''shared'', ''separate''}" by simp
  have f: "False \<or> fs (ex_configured ex_external_env) ''htslib/libhts.a'' = None"
    by (simp add: ex_configured_def ex_state_def)
  have mp: "make_program (ex_configured ex_external_env) = ''make''"
    and cw: "os_path_join (cwd (ex_configured ex_external_env)) ''htslib'' = ''/src/htslib''"
    by (simp_all add: make_program_def ex_configured_def ex_state_def os_path_join_def ex_external_env_def)
  have tg: "lib_static_targets ex_ext
            = [''ALL_CPPFLAGS=-I. -Wno-unused -DBUILDING_WHEEL $(CPPFLAGS)'', ''lib-static'']"
    by (simp add: lib_static_targets_def ex_ext_def format_macro_option_def)
  from prebuild_libchtslib_build[OF m f, of "ex_tools (\<lambda>option. True)" ex_platform ex_ext]
  have "EvMake ''make'' ''/src/htslib''
        [''ALL_CPPFLAGS=-I. -Wno-unused -DBUILDING_WHEEL $(CPPFLAGS)'', ''lib-static'']
       \<in> set (new_events (ex_configured ex_external_env)
                (snd (prebuild_libchtslib (ex_tools (\<lambda>option. True)) ex_platform ''shared''
                        ex_ext False (ex_configured ex_external_env))))"
    unfolding mp cw tg by (auto simp: new_events_def)
  then show ?thesis
    by (simp add: ex_resolve_external)
       (simp add: select_link_mode_def truthy_def getenv_default_def ex_state_def ex_external_env_def)
qed


section \<open>The probe for C99 and the build of the modules\<close>

lemma probe_loop_props:
  assumes "probe_loop t cname cands s = (r, s')"
  shows "r = (case find (probe_ok t) cands of Some f \<Rightarrow> f | None \<Rightarrow> None)
       \<and> compiler s' = compiler s \<and> compiler_so s' = compiler_so s
       \<and> environ s' = environ s \<and> cwd s' = cwd s \<and> fs s' = fs s
       \<and> (\<exists>evs. trace s' = trace s @ evs
              \<and> filter is_probe evs = map EvProbe (attempted (probe_ok t) cands))"
  using assms
proof (induction cands arbitrary: s)
  case Nil
  then show ?case
    by (auto simp: log_def emit_def)
next
  case (Cons f cands)
  show ?case
  proof (cases "probe_ok t f")
    case True
    with Cons.prems show ?thesis
      by (auto simp: log_def emit_def Let_def)
  next
    case False
    with Cons.prems have
      "probe_loop t cname cands (log Info ''(ignoring errors from test probes)'' (emit (EvProbe f) s)) = (r, s')"
      by (simp add: Let_def)
    from Cons.IH[OF this] False show ?thesis
      by (auto simp: log_def emit_def)
  qed
qed


lemma compiler_name_Inr:
  "compiler s \<noteq> Some (CmdList []) \<Longrightarrow> \<exists>cname. compiler_name s = Inr cname"
  by (auto simp: compiler_name_def split: option.splits command.splits list.splits)





lemma c99_compile_args_props:
  assumes "compiler s \<noteq> Some (CmdList [])"
  shows "\<exists>s1 evs. c99_compile_args t s
             = (Inr (case find (probe_ok t) c99_candidates of Some f \<Rightarrow> f | None \<Rightarrow> None), s1)
         \<and> trace s1 = trace s @ evs
         \<and> filter is_probe evs = map EvProbe (attempted (probe_ok t) c99_candidates)
         \<and> compiler s1 = compiler s \<and> compiler_so s1 = compiler_so s"
proof -
  from compiler_name_Inr[OF assms] obtain cname where n: "compiler_name s = Inr cname"
    by blast
  obtain r s1 where l: "probe_loop t cname c99_candidates
      (log Info (''checking for '' @ cname @ '' option to enable C99 features...'') s) = (r, s1)"
    by (cases "probe_loop t cname c99_candidates
      (log Info (''checking for '' @ cname @ '' option to enable C99 features...'') s)")
  have c: "c99_compile_args t s = (Inr r, s1)"
    using l by (simp add: c99_compile_args_def n)
  from probe_loop_props[OF l] obtain evs where
    r: "r = (case find (probe_ok t) c99_candidates of Some f \<Rightarrow> f | None \<Rightarrow> None)"
    and k: "compiler s1 = compiler s" "compiler_so s1 = compiler_so s"
    and tr: "trace s1 = trace s @
        (EvLog Info (''checking for '' @ cname @ '' option to enable C99 features...'') # evs)"
    and pr: "filter is_probe evs = map EvProbe (attempted (probe_ok t) c99_candidates)"
    by (auto simp: log_def emit_def)
  have "filter is_probe (EvLog Info (''checking for '' @ cname @ '' option to enable C99 features...'') # evs)
          = map EvProbe (attempted (probe_ok t) c99_candidates)"
    by (simp add: pr)
  with c r k tr show ?thesis by blast
qed








section \<open>Symbol tables\<close>


lemma nm_entry_Inr_fields:
  "nm_entry darwin line = Inr v \<Longrightarrow> 2 \<le> length (split_ws line)"
  by (auto simp: nm_entry_def split: list.splits)

lemma nm_symbols_props:
  assumes "nm_symbols darwin acc lines = Inr syms"
  shows "set syms = set acc \<union> {x. \<exists>line \<in> set lines. nm_entry darwin line = Inr (Some x)}
       \<and> (distinct acc \<longrightarrow> distinct syms)
       \<and> (\<forall>line \<in> set lines. 2 \<le> length (split_ws line))"
  using assms
proof (induction lines arbitrary: acc)
  case Nil
  then show ?case by simp
next
  case (Cons line lines)
  show ?case
  proof (cases "nm_entry darwin line")
    case (Inl e)
    with Cons.prems show ?thesis by simp
  next
    case (Inr v)
    note f = nm_entry_Inr_fields[OF Inr]
    show ?thesis
    proof (cases v)
      case None
      with Inr Cons.prems have "nm_symbols darwin acc lines = Inr syms" by simp
      from Cons.IH[OF this] Inr None f show ?thesis by auto
    next
      case (Some x)
      with Inr Cons.prems have "nm_symbols darwin (set_add x acc) lines = Inr syms" by simp
      from Cons.IH[OF this] Inr Some f show ?thesis
        by (auto simp: set_add_def split: if_splits)
    qed
  qed
qed

lemma symbols_of_lines_props:
  assumes "symbols_of_lines darwin lines = Inr syms"
  shows "distinct syms
       \<and> set syms = {x. x \<noteq> ''__pyx_CommonTypesMetaclass_get_module''
                        \<and> (\<exists>line \<in> set lines. nm_entry darwin line = Inr (Some x))}
       \<and> (\<forall>line \<in> set lines. 2 \<le> length (split_ws line))"
proof -
  from assms obtain raw where r: "nm_symbols darwin [] lines = Inr raw"
    and s: "syms = removeAll ''__pyx_CommonTypesMetaclass_get_module'' raw"
    by (auto simp: symbols_of_lines_def split: sum.splits)
  from nm_symbols_props[OF r] show ?thesis
    unfolding s by (auto simp: distinct_removeAll)
qed

lemma run_nm_defined_symbols_eq:
  "run_nm_defined_symbols t p objfile s =
     ((case nm_lines t objfile of Inl e \<Rightarrow> Inl e | Inr lines \<Rightarrow> symbols_of_lines (IS_DARWIN p) lines),
      emit (EvNm objfile) s)"
  by (simp add: run_nm_defined_symbols_def Let_def split: sum.splits)





section \<open>The check for symbols defined in several modules\<close>

lemma dict_get_setdefault_append:
  "dict_get (setdefault_append k ob d) k' = (if k' = k then dict_get d k @ [ob] else dict_get d k')"
  by (induction k ob d rule: setdefault_append.induct) (auto simp: dict_get_def)

lemma keys_setdefault_append:
  "map fst (setdefault_append k ob d) = (if k \<in> set (map fst d) then map fst d else map fst d @ [k])"
  by (induction k ob d rule: setdefault_append.induct) auto

lemma distinct_setdefault_append:
  "distinct (map fst d) \<Longrightarrow> distinct (map fst (setdefault_append k ob d))"
  by (simp add: keys_setdefault_append)

lemma fold_setdefault_append:
  assumes "distinct syms"
  shows "dict_get (foldl (\<lambda>d symb. setdefault_append symb ob d) d syms) k
           = dict_get d k @ (if k \<in> set syms then [ob] else [])
       \<and> (distinct (map fst d) \<longrightarrow>
            distinct (map fst (foldl (\<lambda>d symb. setdefault_append symb ob d) d syms)))"
  using assms
proof (induction syms arbitrary: d)
  case Nil
  then show ?case by simp
next
  case (Cons a syms)
  from Cons.prems have d: "distinct syms" and a: "a \<notin> set syms" by auto
  from Cons.IH[OF d, of "setdefault_append a ob d"] a show ?case
    by (auto simp: dict_get_setdefault_append distinct_setdefault_append)
qed

lemma symbol_table_distinct: "symbol_table t p b n = Inr syms \<Longrightarrow> distinct syms"
  by (auto simp: symbol_table_def split: sum.splits dest: symbols_of_lines_props)

lemma run_nm_symbol_table:
  "run_nm_defined_symbols t p (get_ext_fullpath b n) s
     = (symbol_table t p b n, emit (EvNm (get_ext_fullpath b n)) s)"
  by (simp add: run_nm_defined_symbols_eq symbol_table_def)

lemma collect_symbols_props:
  assumes "\<forall>n \<in> set names. \<exists>syms. symbol_table t p b n = Inr syms"
  shows "\<exists>d'. collect_symbols t p b d names s
                 = (Inr d', s\<lparr>trace := trace s @ map (\<lambda>n. EvNm (get_ext_fullpath b n)) names\<rparr>)
           \<and> (\<forall>k. dict_get d' k = dict_get d k @ owners t p b names k)
           \<and> (distinct (map fst d) \<longrightarrow> distinct (map fst d'))"
  using assms
proof (induction names arbitrary: d s)
  case Nil
  then show ?case by (simp add: owners_def)
next
  case (Cons n names)
  from Cons.prems obtain syms where st: "symbol_table t p b n = Inr syms"
    by auto
  define d1 where "d1 = foldl (\<lambda>d symb. setdefault_append symb (lstrip ''pysam.'' n) d) d syms"
  note f = fold_setdefault_append[OF symbol_table_distinct[OF st], of "lstrip ''pysam.'' n" d,
      folded d1_def]
  from Cons.prems have rest: "\<forall>n \<in> set names. \<exists>syms. symbol_table t p b n = Inr syms"
    by simp
  from Cons.IH[OF rest, of d1 "emit (EvNm (get_ext_fullpath b n)) s"] obtain d' where
    c: "collect_symbols t p b d1 names (emit (EvNm (get_ext_fullpath b n)) s)
          = (Inr d', (emit (EvNm (get_ext_fullpath b n)) s)
                \<lparr>trace := trace (emit (EvNm (get_ext_fullpath b n)) s) @
                           map (\<lambda>n. EvNm (get_ext_fullpath b n)) names\<rparr>)"
    and g: "\<forall>k. dict_get d' k = dict_get d1 k @ owners t p b names k"
    and di: "distinct (map fst d1) \<longrightarrow> distinct (map fst d')"
    by blast
  have own: "owners t p b (n # names) k = (if k \<in> set syms then [lstrip ''pysam.'' n] else []) @
               owners t p b names k" for k
    by (simp add: owners_def exports_def st)
  have "collect_symbols t p b d (n # names) s
          = (Inr d', s\<lparr>trace := trace s @ map (\<lambda>n. EvNm (get_ext_fullpath b n)) (n # names)\<rparr>)"
    using c by (simp add: run_nm_symbol_table st d1_def[symmetric] emit_def)
  moreover have "\<forall>k. dict_get d' k = dict_get d k @ owners t p b (n # names) k"
    using g f by (simp add: own)
  moreover have "distinct (map fst d) \<longrightarrow> distinct (map fst d')"
    using di f by blast
  ultimately show ?case by blast
qed

lemma report_conflicts_eq:
  "report_conflicts items errors s =
     (errors + length (filter (\<lambda>item. 1 < length (snd item)) items),
      s\<lparr>trace := trace s @ map (\<lambda>item. EvLog Error (conflict_message item))
                              (filter (\<lambda>item. 1 < length (snd item)) items)\<rparr>)"
  by (induction items errors s rule: report_conflicts.induct) (simp_all add: log_def emit_def)

lemma dict_item_iff:
  assumes "distinct (map fst d)"
  shows "(k, v) \<in> set d \<longleftrightarrow> map_of d k = Some v"
  using assms by simp

lemma check_ext_symbol_conflicts_props:
  assumes "\<forall>n \<in> set names. \<exists>syms. symbol_table t p b n = Inr syms"
  shows "\<exists>conflicts s'.
           check_ext_symbol_conflicts t p b names s
             = ((if conflicts = [] then None
                 else Some (LinkError ''symbols defined in multiple extensions'')), s')
         \<and> distinct (map fst conflicts)
         \<and> set (map fst conflicts) = {symb. 1 < length (owners t p b names symb)}
         \<and> (\<forall>item \<in> set conflicts. snd item = owners t p b names (fst item))
         \<and> trace s' = trace s @ map (\<lambda>n. EvNm (get_ext_fullpath b n)) names @
                         map (\<lambda>item. EvLog Error (conflict_message item)) conflicts"
proof -
  from collect_symbols_props[OF assms, of "[]" s] obtain d' where
    c: "collect_symbols t p b [] names s
          = (Inr d', s\<lparr>trace := trace s @ map (\<lambda>n. EvNm (get_ext_fullpath b n)) names\<rparr>)"
    and g: "\<And>k. dict_get d' k = owners t p b names k"
    and di: "distinct (map fst d')"
    by (auto simp: dict_get_def)
  define conflicts where "conflicts = filter (\<lambda>item. 1 < length (snd item)) d'"
  have item: "snd item = owners t p b names (fst item)" if "item \<in> set d'" for item
  proof -
    from that have "(fst item, snd item) \<in> set d'" by simp
    then have "map_of d' (fst item) = Some (snd item)"
      using dict_item_iff[OF di] by blast
    then show ?thesis
      using g[of "fst item"] by (simp add: dict_get_def)
  qed
  have keys: "set (map fst conflicts) = {symb. 1 < length (owners t p b names symb)}"
  proof (rule set_eqI, rule iffI)
    fix k
    assume "k \<in> set (map fst conflicts)"
    then obtain it where "it \<in> set d'" "1 < length (snd it)" "k = fst it"
      by (auto simp: conflicts_def)
    then show "k \<in> {symb. 1 < length (owners t p b names symb)}"
      using item by auto
  next
    fix k
    assume "k \<in> {symb. 1 < length (owners t p b names symb)}"
    then have l: "1 < length (dict_get d' k)"
      by (simp add: g)
    then obtain v where m: "map_of d' k = Some v"
      by (cases "map_of d' k") (auto simp: dict_get_def)
    then have "(k, v) \<in> set d'" by (rule map_of_SomeD)
    moreover have "1 < length v" using l m by (simp add: dict_get_def)
    ultimately have "(k, v) \<in> set conflicts" by (simp add: conflicts_def)
    then show "k \<in> set (map fst conflicts)" by force
  qed
  have "check_ext_symbol_conflicts t p b names s
             = ((if conflicts = [] then None
                 else Some (LinkError ''symbols defined in multiple extensions'')),
                s\<lparr>trace := trace s @ map (\<lambda>n. EvNm (get_ext_fullpath b n)) names @
                         map (\<lambda>item. EvLog Error (conflict_message item)) conflicts\<rparr>)"
    unfolding conflicts_def by (simp add: check_ext_symbol_conflicts_def c report_conflicts_eq)
  moreover have "distinct (map fst conflicts)"
    unfolding conflicts_def using di by (rule distinct_map_filter)
  moreover have "\<forall>item \<in> set conflicts. snd item = owners t p b names (fst item)"
    using item by (simp add: conflicts_def)
  ultimately show ?thesis
    using keys by auto
qed


lemma run_separate:
  assumes "set_ldshared p s0 = Inr s1" and "build_extensions t p b ''separate'' cxs s1 = (None, s2)"
  shows "run t p b ''separate'' cxs s0 = (None, s2)"
  using assms by (simp add: run_def)

lemma run_checked:
  assumes "set_ldshared p s0 = Inr s1" and "build_extensions t p b mode cxs s1 = (None, s2)"
    and "mode \<noteq> ''separate''"
    and "check_ext_symbol_conflicts t p b (map (\<lambda>cx. name (ext cx)) cxs) s2 = (r, s3)"
    and "r \<noteq> Some OSError" and "r \<noteq> Some CalledProcessError"
  shows "run t p b mode cxs s0 = (r, s3)"
proof (cases r)
  case None
  with assms show ?thesis by (simp add: run_def)
next
  case (Some e)
  with assms show ?thesis by (cases e) (simp_all add: run_def)
qed

text \<open>
  C6, as the code has it. Let the modules be built without error and let the symbol
  tool succeed on each of them. When \<open>HTSLIB_MODE\<close> is \<open>separate\<close> the run returns as
  soon as the modules are built: the check does not run. Otherwise the check runs the
  tool once on every module and the run ends in the link error exactly when some symbol
  is in the symbol table of more than one module; the log receives one error entry for
  each such symbol and no other, and the entry names the owners of the symbol in the
  order of the modules.
\<close>

theorem validator_gate_and_verdict:
  assumes "\<forall>n \<in> set (map (\<lambda>cx. name (ext cx)) cxs). \<exists>syms. symbol_table t p b n = Inr syms"
    and "set_ldshared p s0 = Inr s1"
    and "build_extensions t p b mode cxs s1 = (None, s2)"
  shows "(mode = ''separate'' \<longrightarrow> run t p b mode cxs s0 = (None, s2))
       \<and> (mode \<noteq> ''separate'' \<longrightarrow>
            (\<exists>conflicts s3.
               run t p b mode cxs s0
                 = ((if conflicts = [] then None
                     else Some (LinkError ''symbols defined in multiple extensions'')), s3)
             \<and> (conflicts \<noteq> [] \<longleftrightarrow>
                  (\<exists>symb. 1 < length (owners t p b (map (\<lambda>cx. name (ext cx)) cxs) symb)))
             \<and> distinct (map fst conflicts)
             \<and> set (map fst conflicts)
                 = {symb. 1 < length (owners t p b (map (\<lambda>cx. name (ext cx)) cxs) symb)}
             \<and> (\<forall>item \<in> set conflicts.
                  snd item = owners t p b (map (\<lambda>cx. name (ext cx)) cxs) (fst item))
             \<and> new_events s2 s3
                 = map (\<lambda>n. EvNm (get_ext_fullpath b n)) (map (\<lambda>cx. name (ext cx)) cxs) @
                   map (\<lambda>item. EvLog Error (conflict_message item)) conflicts))"
proof (cases "mode = ''separate''")
  case True
  with run_separate[OF assms(2)] assms(3) show ?thesis by simp
next
  case False
  from check_ext_symbol_conflicts_props[OF assms(1), of s2] obtain conflicts s3 where
    c: "check_ext_symbol_conflicts t p b (map (\<lambda>cx. name (ext cx)) cxs) s2
             = ((if conflicts = [] then None
                 else Some (LinkError ''symbols defined in multiple extensions'')), s3)"
    and d: "distinct (map fst conflicts)"
    and k: "set (map fst conflicts)
              = {symb. 1 < length (owners t p b (map (\<lambda>cx. name (ext cx)) cxs) symb)}"
    and i: "\<forall>item \<in> set conflicts.
              snd item = owners t p b (map (\<lambda>cx. name (ext cx)) cxs) (fst item)"
    and tr: "trace s3 = trace s2 @
               map (\<lambda>n. EvNm (get_ext_fullpath b n)) (map (\<lambda>cx. name (ext cx)) cxs) @
               map (\<lambda>item. EvLog Error (conflict_message item)) conflicts"
    by blast
  have r: "run t p b mode cxs s0
                 = ((if conflicts = [] then None
                     else Some (LinkError ''symbols defined in multiple extensions'')), s3)"
    by (rule run_checked[OF assms(2,3) False c]) simp_all
  have ne: "conflicts \<noteq> [] \<longleftrightarrow>
                  (\<exists>symb. 1 < length (owners t p b (map (\<lambda>cx. name (ext cx)) cxs) symb))"
  proof -
    have "conflicts \<noteq> [] \<longleftrightarrow> set (map fst conflicts) \<noteq> {}"
      by simp
    then show ?thesis
      unfolding k by blast
  qed
  have ev: "new_events s2 s3
                 = map (\<lambda>n. EvNm (get_ext_fullpath b n)) (map (\<lambda>cx. name (ext cx)) cxs) @
                   map (\<lambda>item. EvLog Error (conflict_message item)) conflicts"
    by (simp add: new_events_def tr)
  from False r ne d k i ev show ?thesis by blast
qed

subsection \<open>Two modules that define the same symbol\<close>

lemma build_extension_plain:
  assumes "prebuild_func cx = None" and "\<not> sys_platform_darwin p"
    and "\<And>s x. super_build_extension t s x = None"
  shows "fst (build_extension t p b mode cx s) = None"
  using assms by (simp add: build_extension_def platform_link_args_def Let_def)

lemma super_build_extensions_plain:
  assumes "\<forall>cx \<in> set cxs. prebuild_func cx = None" and "\<not> sys_platform_darwin p"
    and "\<And>s x. super_build_extension t s x = None"
  shows "fst (super_build_extensions t p b mode cxs s) = None"
  using assms(1)
proof (induction cxs arbitrary: s)
  case Nil
  then show ?case by simp
next
  case (Cons cx cxs)
  obtain r1 s1 where b1: "build_extension t p b mode cx s = (r1, s1)"
    by (cases "build_extension t p b mode cx s")
  from build_extension_plain[OF _ assms(2,3), of cx b mode s] Cons.prems b1 have "r1 = None"
    by simp
  with b1 Cons show ?case by simp
qed

lemma build_extensions_plain:
  assumes "\<forall>cx \<in> set cxs. prebuild_func cx = None" and "\<not> sys_platform_darwin p"
    and "\<And>s x. super_build_extension t s x = None"
    and "compiler s \<noteq> Some (CmdList [])"
  shows "fst (build_extensions t p b mode cxs s) = None"
proof -
  from c99_compile_args_props[OF assms(4), of t] obtain fl s1 where
    "c99_compile_args t s = (Inr fl, s1)"
    by blast
  then show ?thesis
    using super_build_extensions_plain[OF assms(1-3)]
    by (simp add: build_extensions_def)
qed

lemma ex_build_ok:
  "build_extensions (ex_tools (\<lambda>option. True)) ex_platform ex_build_ext mode [ex_cx, ex_cx2] (ex_state e)
     = (None, snd (build_extensions (ex_tools (\<lambda>option. True)) ex_platform ex_build_ext mode
                     [ex_cx, ex_cx2] (ex_state e)))"
proof -
  have "fst (build_extensions (ex_tools (\<lambda>option. True)) ex_platform ex_build_ext mode
               [ex_cx, ex_cx2] (ex_state e)) = None"
    by (rule build_extensions_plain)
       (simp_all add: ex_cx_def ex_cx2_def ex_platform_def ex_tools_def ex_state_def)
  then show ?thesis
    by (metis prod.collapse)
qed

lemma ex_symbol_table:
  "symbol_table (ex_tools (\<lambda>option. True)) ex_platform ex_build_ext n = Inr [''foo'']"
proof -
  have sp: "split_ws ''foo T 0000 0010'' = [''foo'', ''T'', ''0000'', ''0010'']"
    "split_ws ''malloc U'' = [''malloc'', ''U'']"
    by (simp_all add: split_ws_def isspace_def)
  show ?thesis
    by (simp add: symbol_table_def ex_tools_def symbols_of_lines_def nm_entry_def sp sublist_code(3)
        set_add_def ex_platform_def)
qed

lemma ex_owners:
  "owners (ex_tools (\<lambda>option. True)) ex_platform ex_build_ext
     (map (\<lambda>cx. name (ext cx)) [ex_cx, ex_cx2]) symb
   = (if symb = ''foo'' then [''libchtslib'', ''libcutils''] else [])"
  by (simp add: owners_def exports_def ex_symbol_table ex_cx_def ex_cx2_def ex_ext_def lstrip_def)

lemma ex_set_ldshared: "set_ldshared ex_platform s = Inr s"
  by (simp add: set_ldshared_def ex_platform_def)

theorem validator_gate_and_verdict_witness:
  "set_ldshared ex_platform (ex_state Map.empty) = Inr (ex_state Map.empty)
   \<and> fst (build_extensions (ex_tools (\<lambda>option. True)) ex_platform ex_build_ext ''shared''
            [ex_cx, ex_cx2] (ex_state Map.empty)) = None
   \<and> symbol_table (ex_tools (\<lambda>option. True)) ex_platform ex_build_ext ''pysam.libchtslib'' = Inr [''foo'']
   \<and> symbol_table (ex_tools (\<lambda>option. True)) ex_platform ex_build_ext ''pysam.libcutils'' = Inr [''foo'']
   \<and> fst (run (ex_tools (\<lambda>option. True)) ex_platform ex_build_ext ''shared'' [ex_cx, ex_cx2]
            (ex_state Map.empty))
       = Some (LinkError ''symbols defined in multiple extensions'')
   \<and> new_events
        (snd (build_extensions (ex_tools (\<lambda>option. True)) ex_platform ex_build_ext ''shared''
                [ex_cx, ex_cx2] (ex_state Map.empty)))
        (snd (run (ex_tools (\<lambda>option. True)) ex_platform ex_build_ext ''shared'' [ex_cx, ex_cx2]
                (ex_state Map.empty)))
       = [EvNm ''build/lib/pysam/libchtslib.so'', EvNm ''build/lib/pysam/libcutils.so'',
          EvLog Error ''conflicting symbol (libchtslib libcutils): foo'']
   \<and> run (ex_tools (\<lambda>option. True)) ex_platform ex_build_ext ''separate'' [ex_cx, ex_cx2]
         (ex_state Map.empty)
       = build_extensions (ex_tools (\<lambda>option. True)) ex_platform ex_build_ext ''separate''
           [ex_cx, ex_cx2] (ex_state Map.empty)"
proof -
  let ?t = "ex_tools (\<lambda>option. True)"
  let ?s = "ex_state Map.empty"
  let ?names = "map (\<lambda>cx. name (ext cx)) [ex_cx, ex_cx2]"
  have tb: "\<forall>n \<in> set ?names. \<exists>syms. symbol_table ?t ex_platform ex_build_ext n = Inr syms"
    by (simp add: ex_symbol_table)
  note sh = validator_gate_and_verdict[OF tb ex_set_ldshared ex_build_ok, of "''shared''" Map.empty]
  note se = validator_gate_and_verdict[OF tb ex_set_ldshared ex_build_ok, of "''separate''" Map.empty]
  from se have sep: "run ?t ex_platform ex_build_ext ''separate'' [ex_cx, ex_cx2] ?s
       = build_extensions ?t ex_platform ex_build_ext ''separate'' [ex_cx, ex_cx2] ?s"
    using ex_build_ok[of "''separate''" Map.empty] by simp
  define s2 where "s2 = snd (build_extensions ?t ex_platform ex_build_ext ''shared'' [ex_cx, ex_cx2] ?s)"
  have ne: "''shared'' \<noteq> ''separate''"
    by simp
  from sh ne obtain conflicts s3 where
    r: "run ?t ex_platform ex_build_ext ''shared'' [ex_cx, ex_cx2] ?s
          = ((if conflicts = [] then None
              else Some (LinkError ''symbols defined in multiple extensions'')), s3)"
    and d: "distinct (map fst conflicts)"
    and k: "set (map fst conflicts) = {symb. 1 < length (owners ?t ex_platform ex_build_ext ?names symb)}"
    and i: "\<forall>item \<in> set conflicts. snd item = owners ?t ex_platform ex_build_ext ?names (fst item)"
    and ev: "new_events s2 s3
                 = map (\<lambda>n. EvNm (get_ext_fullpath ex_build_ext n)) ?names @
                   map (\<lambda>item. EvLog Error (conflict_message item)) conflicts"
    unfolding s2_def by blast
  have ks: "{symb. 1 < length (owners ?t ex_platform ex_build_ext ?names symb)} = {''foo''}"
    unfolding ex_owners by auto
  have one: "xs = [a]" if "distinct xs" "set xs = {a}" for xs :: "string list" and a
  proof (cases xs)
    case Nil
    with that show ?thesis by simp
  next
    case (Cons y ys)
    with that have "y = a" "set ys \<subseteq> {a}" "y \<notin> set ys" by auto
    then have "ys = []" by (cases ys) auto
    with Cons \<open>y = a\<close> show ?thesis by simp
  qed
  from one[OF d k[unfolded ks]] obtain v where cf: "conflicts = [(''foo'', v)]"
    by (cases conflicts) auto
  have cf': "conflicts = [(''foo'', [''libchtslib'', ''libcutils''])]"
    using i unfolding cf ex_owners by simp
  have fp: "map (\<lambda>n. EvNm (get_ext_fullpath ex_build_ext n)) ?names
            = [EvNm ''build/lib/pysam/libchtslib.so'', EvNm ''build/lib/pysam/libcutils.so'']"
    by (simp add: ex_build_ext_def ex_cx_def ex_cx2_def ex_ext_def dots_to_sep_def)
  have msg: "conflict_message (''foo'', [''libchtslib'', ''libcutils''])
             = ''conflicting symbol (libchtslib libcutils): foo''"
    by (simp add: conflict_message_def)
  have fb: "fst (build_extensions ?t ex_platform ex_build_ext ''shared'' [ex_cx, ex_cx2] ?s) = None"
    using ex_build_ok[of "''shared''" Map.empty] by (metis fst_conv)
  have st: "symbol_table ?t ex_platform ex_build_ext ''pysam.libchtslib'' = Inr [''foo'']"
    "symbol_table ?t ex_platform ex_build_ext ''pysam.libcutils'' = Inr [''foo'']"
    by (rule ex_symbol_table)+
  have ev': "new_events s2 (snd (run ?t ex_platform ex_build_ext ''shared'' [ex_cx, ex_cx2] ?s))
       = [EvNm ''build/lib/pysam/libchtslib.so'', EvNm ''build/lib/pysam/libcutils.so'',
          EvLog Error ''conflicting symbol (libchtslib libcutils): foo'']"
    using ev fp by (simp add: r cf' msg)
  have rr: "fst (run ?t ex_platform ex_build_ext ''shared'' [ex_cx, ex_cx2] ?s)
       = Some (LinkError ''symbols defined in multiple extensions'')"
    by (simp add: r cf')
  from ex_set_ldshared[of ?s] fb st rr ev'[unfolded s2_def] sep show ?thesis
    by blast
qed

theorem external_with_separate_request_counterexample:
  "select_link_mode (Some ''/opt/lib'') ''separate'' = Inr External
   \<and> owners (ex_tools (\<lambda>option. True)) ex_platform ex_build_ext
        [''pysam.libchtslib'', ''pysam.libcutils''] ''foo''
       = [''libchtslib'', ''libcutils'']
   \<and> fst (run (ex_tools (\<lambda>option. True)) ex_platform ex_build_ext ''separate'' [ex_cx, ex_cx2]
            (ex_state ex_external_env))
       = None
   \<and> new_events (ex_state ex_external_env)
        (snd (run (ex_tools (\<lambda>option. True)) ex_platform ex_build_ext ''separate'' [ex_cx, ex_cx2]
                (ex_state ex_external_env)))
       = [EvLog Info ''checking for cc option to enable C99 features...'',
          EvProbe None, EvLog Info ''(ignoring errors from test probes)'',
          EvProbe (Some [''-std=c99'']), EvLog Info ''(ignoring errors from test probes)'',
          EvProbe (Some [''-std=gnu99'']), EvLog Info ''cc option to enable C99 features: -std=gnu99'',
          EvSetExecutables [(''compiler'', CmdList [''cc'', ''-std=gnu99'']),
                            (''compiler_so'', CmdList [''cc'', ''-fPIC'', ''-std=gnu99''])],
          EvBuildExtension ''pysam.libchtslib'', EvBuildExtension ''pysam.libcutils'']"
proof -
  let ?t = "ex_tools (\<lambda>option. True)"
  let ?s = "ex_state ex_external_env"
  have m: "select_link_mode (Some ''/opt/lib'') ''separate'' = Inr External"
    by (simp add: select_link_mode_def truthy_def)
  have o: "owners ?t ex_platform ex_build_ext [''pysam.libchtslib'', ''pysam.libcutils''] ''foo''
       = [''libchtslib'', ''libcutils'']"
    using ex_owners[of "''foo''"] by (simp add: ex_cx_def ex_cx2_def ex_ext_def)
  have r: "run ?t ex_platform ex_build_ext ''separate'' [ex_cx, ex_cx2] ?s
       = build_extensions ?t ex_platform ex_build_ext ''separate'' [ex_cx, ex_cx2] ?s"
    using run_separate[OF ex_set_ldshared ex_build_ok, of ex_external_env] ex_build_ok[of "''separate''" ex_external_env]
    by simp
  have c: "compiler ?s \<noteq> Some (CmdList [])"
    by (simp add: ex_state_def)
  obtain r0 s' where b: "build_extensions ?t ex_platform ex_build_ext ''separate'' [ex_cx, ex_cx2] ?s = (r0, s')"
    by (cases "build_extensions ?t ex_platform ex_build_ext ''separate'' [ex_cx, ex_cx2] ?s")
  have tr: "new_events ?s s' =
      [EvLog Info ''checking for cc option to enable C99 features...'',
       EvProbe None, EvLog Info ''(ignoring errors from test probes)'',
       EvProbe (Some [''-std=c99'']), EvLog Info ''(ignoring errors from test probes)'',
       EvProbe (Some [''-std=gnu99'']), EvLog Info ''cc option to enable C99 features: -std=gnu99'',
       EvSetExecutables [(''compiler'', CmdList [''cc'', ''-std=gnu99'']),
                         (''compiler_so'', CmdList [''cc'', ''-fPIC'', ''-std=gnu99''])],
       EvBuildExtension ''pysam.libchtslib'', EvBuildExtension ''pysam.libcutils'']"
    using b
    by (auto simp: build_extensions_def c99_compile_args_def compiler_name_def c99_candidates_def
        set_executables_def extended_command_def build_extension_def platform_link_args_def
        flags_text_def Let_def log_def emit_def new_events_def
        ex_state_def ex_tools_def ex_platform_def ex_build_ext_def ex_cx_def ex_cx2_def ex_ext_def
        split: prod.splits)
  have "fst (build_extensions ?t ex_platform ex_build_ext ''separate'' [ex_cx, ex_cx2] ?s) = None"
    using ex_build_ok[of "''separate''" ex_external_env] by (metis fst_conv)
  with m o show ?thesis
    by (simp add: r b tr)
qed


end
